theory Spec2Isabelle
  imports Complex_Main
begin

section \<open>Python values shared by the modules\<close>

text \<open>
  A Python \<^verbatim>\<open>str\<close> is held as the list of bytes of its UTF-8 encoding. The encoding is
  injective and commutes with concatenation, so equality tests, \<^verbatim>\<open>+\<close>, emptiness
  (truthiness) and tests against ASCII prefixes read the same on both sides. Literals of
  the source that are not ASCII are written byte by byte.

  An exception is a value: its class and the text that \<^verbatim>\<open>str(e)\<close> gives.
  \<open>LibraryError\<close> stands for any \<^verbatim>\<open>Exception\<close> raised inside a library the source calls
  (httpx, dingtalk_stream). Only subclasses of \<^verbatim>\<open>Exception\<close> are modelled: every handler of
  the source is \<^verbatim>\<open>except Exception\<close> or narrower.
\<close>

datatype exc_kind =
  ValueError | JSONDecodeError | RecursionError | RuntimeError | AttributeError | TypeError
  | KeyError | IndexError | OverflowError | LibraryError

datatype exc = Exc exc_kind string


section \<open>config.py\<close>

type_synonym environ = "string \<Rightarrow> string option"

definition UNSET :: string where
  "UNSET = ''__UNSET__''"

text \<open>The five attribute names that are the keys of \<^verbatim>\<open>_ENV_DEFAULTS\<close>.\<close>

datatype attr =
  A_dingtalk_client_id | A_dingtalk_client_secret | A_gateway_url | A_model | A_gateway_token

definition ENV_DEFAULTS :: "(attr \<times> string \<times> string) list" where
  "ENV_DEFAULTS =
     [(A_dingtalk_client_id, ''DINGTALK_CLIENT_ID'', ''''),
      (A_dingtalk_client_secret, ''DINGTALK_CLIENT_SECRET'', ''''),
      (A_gateway_url, ''MOLTBOT_GATEWAY_URL'', ''http://127.0.0.1:18789''),
      (A_model, ''MOLTBOT_MODEL'', ''default''),
      (A_gateway_token, ''MOLTBOT_GATEWAY_TOKEN'', '''')]"

record ConnectorConfig =
  dingtalk_client_id :: string
  dingtalk_client_secret :: string
  gateway_url :: string
  model :: string
  system_prompt :: string
  enable_media_upload :: bool
  timeout :: real
  gateway_token :: string

fun getattr :: "ConnectorConfig \<Rightarrow> attr \<Rightarrow> string" where
  "getattr self A_dingtalk_client_id = dingtalk_client_id self"
| "getattr self A_dingtalk_client_secret = dingtalk_client_secret self"
| "getattr self A_gateway_url = gateway_url self"
| "getattr self A_model = model self"
| "getattr self A_gateway_token = gateway_token self"

fun setattr :: "ConnectorConfig \<Rightarrow> attr \<Rightarrow> string \<Rightarrow> ConnectorConfig" where
  "setattr self A_dingtalk_client_id v = self\<lparr>dingtalk_client_id := v\<rparr>"
| "setattr self A_dingtalk_client_secret v = self\<lparr>dingtalk_client_secret := v\<rparr>"
| "setattr self A_gateway_url v = self\<lparr>gateway_url := v\<rparr>"
| "setattr self A_model v = self\<lparr>model := v\<rparr>"
| "setattr self A_gateway_token v = self\<lparr>gateway_token := v\<rparr>"

text \<open>\<^verbatim>\<open>os.environ.get(key, default)\<close>.\<close>

definition environ_get :: "environ \<Rightarrow> string \<Rightarrow> string \<Rightarrow> string" where
  "environ_get env k dflt = (case env k of None \<Rightarrow> dflt | Some v \<Rightarrow> v)"

text \<open>
  The loop of \<^verbatim>\<open>__post_init__\<close> over \<^verbatim>\<open>_ENV_DEFAULTS.items()\<close>. Beside the object it
  returns the environment keys it has read, in order: the reads of \<^verbatim>\<open>os.environ\<close> are
  the one effect of the constructor.
\<close>

fun post_init_loop ::
  "environ \<Rightarrow> (attr \<times> string \<times> string) list \<Rightarrow> ConnectorConfig \<times> string list
     \<Rightarrow> ConnectorConfig \<times> string list" where
  "post_init_loop env [] (self, consulted) = (self, consulted)"
| "post_init_loop env ((a, env_key, dflt) # rest) (self, consulted) =
     (if getattr self a = UNSET then
        (let env_val = environ_get env env_key '''' in
         post_init_loop env rest
           (setattr self a (if env_val \<noteq> [] then env_val else dflt), consulted @ [env_key]))
      else post_init_loop env rest (self, consulted))"

definition post_init :: "environ \<Rightarrow> ConnectorConfig \<Rightarrow> ConnectorConfig \<times> string list" where
  "post_init env self = post_init_loop env ENV_DEFAULTS (self, [])"

text \<open>
  The keyword arguments of a constructor call: \<open>None\<close> is an argument the caller left
  out, \<open>Some v\<close> one the caller wrote. \<^verbatim>\<open>ConnectorConfig\<close> and \<^verbatim>\<open>MoltbotConnector\<close> take the
  same eight.
\<close>

record ctor_args =
  dingtalk_client_id_arg :: "string option"
  dingtalk_client_secret_arg :: "string option"
  gateway_url_arg :: "string option"
  model_arg :: "string option"
  system_prompt_arg :: "string option"
  enable_media_upload_arg :: "bool option"
  timeout_arg :: "real option"
  gateway_token_arg :: "string option"

definition no_args :: ctor_args where
  "no_args =
     \<lparr>dingtalk_client_id_arg = None, dingtalk_client_secret_arg = None,
      gateway_url_arg = None, model_arg = None, system_prompt_arg = None,
      enable_media_upload_arg = None, timeout_arg = None, gateway_token_arg = None\<rparr>"

text \<open>A parameter with a default value.\<close>

definition param :: "'a option \<Rightarrow> 'a \<Rightarrow> 'a" where
  "param arg dflt = (case arg of None \<Rightarrow> dflt | Some v \<Rightarrow> v)"

text \<open>The argument a caller wrote for one of the five resolved attributes.\<close>

fun ctor_arg :: "ctor_args \<Rightarrow> attr \<Rightarrow> string option" where
  "ctor_arg args A_dingtalk_client_id = dingtalk_client_id_arg args"
| "ctor_arg args A_dingtalk_client_secret = dingtalk_client_secret_arg args"
| "ctor_arg args A_gateway_url = gateway_url_arg args"
| "ctor_arg args A_model = model_arg args"
| "ctor_arg args A_gateway_token = gateway_token_arg args"

text \<open>
  \<^verbatim>\<open>ConnectorConfig(...)\<close>: the generated \<^verbatim>\<open>__init__\<close> of the dataclass stores each argument
  or the field's default, then calls \<^verbatim>\<open>__post_init__\<close>.
\<close>

definition ConnectorConfig_init ::
  "environ \<Rightarrow> ctor_args \<Rightarrow> ConnectorConfig \<times> string list" where
  "ConnectorConfig_init env args =
     post_init env
       \<lparr>dingtalk_client_id = param (dingtalk_client_id_arg args) UNSET,
        dingtalk_client_secret = param (dingtalk_client_secret_arg args) UNSET,
        gateway_url = param (gateway_url_arg args) UNSET,
        model = param (model_arg args) UNSET,
        system_prompt = param (system_prompt_arg args) '''',
        enable_media_upload = param (enable_media_upload_arg args) True,
        timeout = param (timeout_arg args) 120,
        gateway_token = param (gateway_token_arg args) UNSET\<rparr>"

definition ConnectorConfig_from_env :: "environ \<Rightarrow> ConnectorConfig \<times> string list" where
  "ConnectorConfig_from_env env = ConnectorConfig_init env no_args"

text \<open>\<^verbatim>\<open>str.rstrip("/")\<close> and the property \<^verbatim>\<open>api_url\<close>.\<close>

definition rstrip_slash :: "string \<Rightarrow> string" where
  "rstrip_slash s = rev (dropWhile (\<lambda>c. c = CHR ''/'') (rev s))"

definition api_url :: "ConnectorConfig \<Rightarrow> string" where
  "api_url self = rstrip_slash (gateway_url self) @ ''/v1/chat/completions''"

definition missing_client_id_text :: string where
  "missing_client_id_text =
     [CHR 0xE7, CHR 0xBC, CHR 0xBA, CHR 0xE5, CHR 0xB0, CHR 0x91] @ '' dingtalk_client_id'' @
     [CHR 0xEF, CHR 0xBC, CHR 0x8C, CHR 0xE8, CHR 0xAF, CHR 0xB7, CHR 0xE9, CHR 0x80, CHR 0x9A,
      CHR 0xE8, CHR 0xBF, CHR 0x87, CHR 0xE6, CHR 0x9E, CHR 0x84, CHR 0xE9, CHR 0x80, CHR 0xA0,
      CHR 0xE5, CHR 0x8F, CHR 0x82, CHR 0xE6, CHR 0x95, CHR 0xB0, CHR 0xE6, CHR 0x88, CHR 0x96,
      CHR 0xE7, CHR 0x8E, CHR 0xAF, CHR 0xE5, CHR 0xA2, CHR 0x83, CHR 0xE5, CHR 0x8F, CHR 0x98,
      CHR 0xE9, CHR 0x87, CHR 0x8F] @ '' DINGTALK_CLIENT_ID '' @
     [CHR 0xE9, CHR 0x85, CHR 0x8D, CHR 0xE7, CHR 0xBD, CHR 0xAE]"

definition missing_client_secret_text :: string where
  "missing_client_secret_text =
     [CHR 0xE7, CHR 0xBC, CHR 0xBA, CHR 0xE5, CHR 0xB0, CHR 0x91] @
     '' dingtalk_client_secret'' @
     [CHR 0xEF, CHR 0xBC, CHR 0x8C, CHR 0xE8, CHR 0xAF, CHR 0xB7, CHR 0xE9, CHR 0x80, CHR 0x9A,
      CHR 0xE8, CHR 0xBF, CHR 0x87, CHR 0xE6, CHR 0x9E, CHR 0x84, CHR 0xE9, CHR 0x80, CHR 0xA0,
      CHR 0xE5, CHR 0x8F, CHR 0x82, CHR 0xE6, CHR 0x95, CHR 0xB0, CHR 0xE6, CHR 0x88, CHR 0x96,
      CHR 0xE7, CHR 0x8E, CHR 0xAF, CHR 0xE5, CHR 0xA2, CHR 0x83, CHR 0xE5, CHR 0x8F, CHR 0x98,
      CHR 0xE9, CHR 0x87, CHR 0x8F] @ '' DINGTALK_CLIENT_SECRET '' @
     [CHR 0xE9, CHR 0x85, CHR 0x8D, CHR 0xE7, CHR 0xBD, CHR 0xAE]"

text \<open>\<^verbatim>\<open>validate\<close>: \<open>Inl\<close> is the \<^verbatim>\<open>ValueError\<close> it raises, \<open>Inr ()\<close> its plain return.\<close>

definition validate :: "ConnectorConfig \<Rightarrow> exc + unit" where
  "validate self =
     (if dingtalk_client_id self = [] then Inl (Exc ValueError missing_client_id_text)
      else if dingtalk_client_secret self = [] then
        Inl (Exc ValueError missing_client_secret_text)
      else Inr ())"

section \<open>connector.py\<close>

text \<open>
  \<^verbatim>\<open>MoltbotConnector.__init__\<close> has defaults of its own and hands every parameter on to
  \<^verbatim>\<open>ConnectorConfig\<close> as a keyword argument. The connector object is represented by
  its \<^verbatim>\<open>config\<close>.
\<close>

definition MoltbotConnector_init ::
  "environ \<Rightarrow> ctor_args \<Rightarrow> ConnectorConfig \<times> string list" where
  "MoltbotConnector_init env args =
     ConnectorConfig_init env
       \<lparr>dingtalk_client_id_arg = Some (param (dingtalk_client_id_arg args) ''''),
        dingtalk_client_secret_arg = Some (param (dingtalk_client_secret_arg args) ''''),
        gateway_url_arg = Some (param (gateway_url_arg args) ''http://127.0.0.1:18789''),
        model_arg = Some (param (model_arg args) ''default''),
        system_prompt_arg = Some (param (system_prompt_arg args) ''''),
        enable_media_upload_arg = Some (param (enable_media_upload_arg args) True),
        timeout_arg = Some (param (timeout_arg args) 120),
        gateway_token_arg = Some (param (gateway_token_arg args) '''')\<rparr>"

definition MoltbotConnector_from_env :: "environ \<Rightarrow> ConnectorConfig \<times> string list" where
  "MoltbotConnector_from_env env = MoltbotConnector_init env no_args"

text \<open>
  \<^verbatim>\<open>start\<close>, up to the credential it builds for the stream client: it validates the
  configuration first, and a failed validation leaves the method by its exception. The
  listener thread and the signal handlers that follow are not part of the model.
\<close>

datatype credential = Credential string string

definition start :: "ConnectorConfig \<Rightarrow> exc + credential" where
  "start config =
     (case validate config of
        Inl e \<Rightarrow> Inl e
      | Inr u \<Rightarrow> Inr (Credential (dingtalk_client_id config) (dingtalk_client_secret config)))"

section \<open>Python floats\<close>

text \<open>
  A \<^verbatim>\<open>float\<close> is a binary64 value: a finite one, held as the real number it denotes (the
  two zeros are one), an infinity or a NaN. The arithmetic is Python's: the exact result
  of two finite operands is rounded to binary64, and what the rounding does (to nearest,
  ties to even, an infinity beyond the largest finite value) is the parameter
  \<open>rounding\<close> of the operations below. The infinities and NaN follow IEEE 754.
\<close>

datatype pyfloat = Finite real | PosInf | NegInf | NaN

fun float_neg :: "pyfloat \<Rightarrow> pyfloat" where
  "float_neg (Finite a) = Finite (- a)"
| "float_neg PosInf = NegInf"
| "float_neg NegInf = PosInf"
| "float_neg NaN = NaN"

fun float_add :: "(real \<Rightarrow> pyfloat) \<Rightarrow> pyfloat \<Rightarrow> pyfloat \<Rightarrow> pyfloat" where
  "float_add rounding NaN y = NaN"
| "float_add rounding x NaN = NaN"
| "float_add rounding (Finite a) (Finite b) = rounding (a + b)"
| "float_add rounding PosInf NegInf = NaN"
| "float_add rounding NegInf PosInf = NaN"
| "float_add rounding PosInf y = PosInf"
| "float_add rounding NegInf y = NegInf"
| "float_add rounding (Finite a) y = y"

definition float_sub :: "(real \<Rightarrow> pyfloat) \<Rightarrow> pyfloat \<Rightarrow> pyfloat \<Rightarrow> pyfloat" where
  "float_sub rounding x y = float_add rounding x (float_neg y)"

text \<open>\<^verbatim>\<open>x < y\<close> on floats: false whenever a NaN is compared.\<close>

fun float_less :: "pyfloat \<Rightarrow> pyfloat \<Rightarrow> bool" where
  "float_less NaN y = False"
| "float_less x NaN = False"
| "float_less (Finite a) (Finite b) = (a < b)"
| "float_less x NegInf = False"
| "float_less PosInf y = False"
| "float_less NegInf y = True"
| "float_less (Finite a) PosInf = True"

section \<open>Values decoded from JSON\<close>

text \<open>
  What \<^verbatim>\<open>resp.json()\<close> and \<^verbatim>\<open>json.loads\<close> return: \<^verbatim>\<open>None\<close>, \<^verbatim>\<open>bool\<close>, \<^verbatim>\<open>int\<close>, \<^verbatim>\<open>float\<close>
  (the literals \<^verbatim>\<open>NaN\<close> and \<^verbatim>\<open>Infinity\<close>, which both accept, included), \<^verbatim>\<open>str\<close>, \<^verbatim>\<open>list\<close> and
  \<^verbatim>\<open>dict\<close> with string keys.
\<close>

datatype json =
  JNull | JBool bool | JInt int | JFloat pyfloat | JStr string
  | JArr "json list" | JObj "(string \<times> json) list"

text \<open>The truth value of an object in \<^verbatim>\<open>if x:\<close> and \<^verbatim>\<open>not x\<close>.\<close>

fun truthy :: "json \<Rightarrow> bool" where
  "truthy JNull = False"
| "truthy (JBool b) = b"
| "truthy (JInt i) = (i \<noteq> 0)"
| "truthy (JFloat f) = (f \<noteq> Finite 0)"
| "truthy (JStr s) = (s \<noteq> [])"
| "truthy (JArr xs) = (xs \<noteq> [])"
| "truthy (JObj kvs) = (kvs \<noteq> [])"

fun type_name :: "json \<Rightarrow> string" where
  "type_name JNull = ''NoneType''"
| "type_name (JBool b) = ''bool''"
| "type_name (JInt i) = ''int''"
| "type_name (JFloat f) = ''float''"
| "type_name (JStr s) = ''str''"
| "type_name (JArr xs) = ''list''"
| "type_name (JObj kvs) = ''dict''"

definition quoted :: "string \<Rightarrow> string" where
  "quoted s = [CHR 0x27] @ s @ [CHR 0x27]"

text \<open>\<^verbatim>\<open>d.get(key, default)\<close> on a dict, and on any object: only a dict has \<^verbatim>\<open>get\<close>.\<close>

definition dict_get :: "(string \<times> json) list \<Rightarrow> string \<Rightarrow> json \<Rightarrow> json" where
  "dict_get kvs k dflt = (case map_of kvs k of None \<Rightarrow> dflt | Some v \<Rightarrow> v)"

fun py_get :: "json \<Rightarrow> string \<Rightarrow> json \<Rightarrow> exc + json" where
  "py_get (JObj kvs) k dflt = Inr (dict_get kvs k dflt)"
| "py_get v k dflt =
     Inl (Exc AttributeError
       (quoted (type_name v) @ '' object has no attribute '' @ quoted ''get''))"

text \<open>\<^verbatim>\<open>x == 0\<close>: true for the integer and the float zero and for \<^verbatim>\<open>False\<close>.\<close>

fun eq_zero :: "json \<Rightarrow> bool" where
  "eq_zero (JInt i) = (i = 0)"
| "eq_zero (JFloat f) = (f = Finite 0)"
| "eq_zero (JBool b) = (\<not> b)"
| "eq_zero v = False"

text \<open>
  The right operand of \<^verbatim>\<open>float + x\<close> as a float: an \<^verbatim>\<open>int\<close> is converted, rounded (and is
  too large from \<open>2^1024 - 2^970\<close> on); a \<^verbatim>\<open>bool\<close> counts as 0 or 1; every other type is
  refused.
\<close>

definition float_int_limit :: int where
  "float_int_limit = 2 ^ 1024 - 2 ^ 970"

fun float_operand :: "(real \<Rightarrow> pyfloat) \<Rightarrow> json \<Rightarrow> exc + pyfloat" where
  "float_operand rounding (JInt i) =
     (if \<bar>i\<bar> < float_int_limit then Inr (rounding (of_int i))
      else Inl (Exc OverflowError ''int too large to convert to float''))"
| "float_operand rounding (JFloat f) = Inr f"
| "float_operand rounding (JBool b) = Inr (Finite (if b then 1 else 0))"
| "float_operand rounding v =
     Inl (Exc TypeError
       (''unsupported operand type(s) for +: '' @ quoted ''float'' @ '' and ''
          @ quoted (type_name v)))"

section \<open>Requests sent to the network\<close>

record chat_message =
  role :: string
  content :: string

text \<open>
  The POST of \<^verbatim>\<open>_stream_from_gateway\<close>: URL, headers, the client's timeout and the three
  entries of the JSON payload.
\<close>

record chat_request =
  url :: string
  headers :: "(string \<times> string) list"
  request_timeout :: real
  payload_model :: string
  payload_messages :: "chat_message list"
  payload_stream :: bool

text \<open>A call that leaves the process: the GET of the token endpoint, or the POST above.\<close>

datatype net_call = GetToken string string | PostChat chat_request

section \<open>media.py\<close>

text \<open>
  The module's state: \<^verbatim>\<open>_token_cache\<close>, and the calls made to the network so far, which
  the source does not store but which are what a fetch is.
\<close>

record state =
  token_cache :: "string \<Rightarrow> (json \<times> pyfloat) option"
  net_log :: "net_call list"

text \<open>
  What one call of \<^verbatim>\<open>get_dingtalk_access_token\<close> reads from outside: \<^verbatim>\<open>time.time()\<close> at
  the test of the cached entry and \<^verbatim>\<open>time.time()\<close> when the new entry is stored (finite
  floats, given by their values), the outcome of \<^verbatim>\<open>httpx.get(...)\<close> followed by
  \<^verbatim>\<open>resp.json()\<close> (\<open>Inl\<close> when either raises), and the rounding of binary64 arithmetic
  that the float operations take.
\<close>

record token_io =
  clock_check :: real
  clock_store :: real
  gettoken_reply :: "exc + json"
  binary64 :: "real \<Rightarrow> pyfloat"

text \<open>
  The body of the \<^verbatim>\<open>try\<close>: the outcome (\<open>Inl\<close> an exception on its way to the handler,
  \<open>Inr\<close> the value returned) and the state it leaves. The expiry is
  \<^verbatim>\<open>time.time() + expires_in - 300\<close> as Python evaluates it: the sum first, then the
  difference, each in float arithmetic.
\<close>

definition token_try_body ::
  "string \<Rightarrow> string \<Rightarrow> token_io \<Rightarrow> state \<Rightarrow> (exc + json option) \<times> state" where
  "token_try_body client_id client_secret io st =
     (let st1 = st\<lparr>net_log := net_log st @ [GetToken client_id client_secret]\<rparr> in
      case gettoken_reply io of
        Inl e \<Rightarrow> (Inl e, st1)
      | Inr data \<Rightarrow>
          (case py_get data ''errcode'' JNull of
             Inl e \<Rightarrow> (Inl e, st1)
           | Inr errcode \<Rightarrow>
               if eq_zero errcode then
                 (case py_get data ''access_token'' (JStr '''') of
                    Inl e \<Rightarrow> (Inl e, st1)
                  | Inr token \<Rightarrow>
                      (case py_get data ''expires_in'' (JInt 7200) of
                         Inl e \<Rightarrow> (Inl e, st1)
                       | Inr expires_in \<Rightarrow>
                           (case float_operand (binary64 io) expires_in of
                              Inl e \<Rightarrow> (Inl e, st1)
                            | Inr seconds \<Rightarrow>
                                (Inr (Some token),
                                 st1\<lparr>token_cache := (token_cache st1)
                                   (client_id \<mapsto>
                                      (token,
                                       float_sub (binary64 io)
                                         (float_add (binary64 io) (Finite (clock_store io))
                                            seconds)
                                         (Finite 300)))\<rparr>))))
               else (Inr None, st1)))"

text \<open>
  \<^verbatim>\<open>get_dingtalk_access_token\<close>. The result type keeps a place for an exception that
  reaches the caller, so that "never raises" is a statement about the function.
\<close>

definition get_dingtalk_access_token ::
  "string \<Rightarrow> string \<Rightarrow> token_io \<Rightarrow> state \<Rightarrow> (exc + json option) \<times> state" where
  "get_dingtalk_access_token client_id client_secret io st =
     (let fetch =
        (case token_try_body client_id client_secret io st of
           (Inl e, st') \<Rightarrow> (Inr None, st')
         | (Inr r, st') \<Rightarrow> (Inr r, st'))
      in
      case token_cache st client_id of
        None \<Rightarrow> fetch
      | Some (token, expires_at) \<Rightarrow>
          if float_less (Finite (clock_check io)) expires_at then (Inr (Some token), st)
          else fetch)"

text \<open>
  A replacement field \<^verbatim>\<open>{x}\<close> of an f-string: a \<^verbatim>\<open>str\<close> is inserted as it is; the text
  Python gives any other object is a parameter.
\<close>

definition fstr :: "(json \<Rightarrow> string) \<Rightarrow> json \<Rightarrow> string" where
  "fstr format_other v = (case v of JStr s \<Rightarrow> s | _ \<Rightarrow> format_other v)"

text \<open>The three constant parts of the template of \<^verbatim>\<open>build_media_system_prompt\<close>.\<close>

definition media_prompt_head :: string where
  "media_prompt_head =
     ''## '' @ [CHR 0xE9, CHR 0x92, CHR 0x89, CHR 0xE9, CHR 0x92, CHR 0x89, CHR 0xE5, CHR 0x9B,
     CHR 0xBE, CHR 0xE7, CHR 0x89, CHR 0x87, CHR 0xE6, CHR 0x98, CHR 0xBE, CHR 0xE7, CHR 0xA4,
     CHR 0xBA, CHR 0xE8, CHR 0xA7, CHR 0x84, CHR 0xE5, CHR 0x88, CHR 0x99, CHR 0xEF, CHR 0xBC,
     CHR 0x88, CHR 0xE5, CHR 0xBC, CHR 0xBA, CHR 0xE5, CHR 0x88, CHR 0xB6, CHR 0xEF, CHR 0xBC,
     CHR 0x89, CHR 0x0A, CHR 0x0A, CHR 0xE4, CHR 0xBD, CHR 0xA0, CHR 0xE6, CHR 0xAD, CHR 0xA3,
     CHR 0xE5, CHR 0x9C, CHR 0xA8, CHR 0xE9, CHR 0x92, CHR 0x89, CHR 0xE9, CHR 0x92, CHR 0x89,
     CHR 0xE4, CHR 0xB8, CHR 0xAD, CHR 0xE4, CHR 0xB8, CHR 0x8E, CHR 0xE7, CHR 0x94, CHR 0xA8,
     CHR 0xE6, CHR 0x88, CHR 0xB7, CHR 0xE5, CHR 0xAF, CHR 0xB9, CHR 0xE8, CHR 0xAF, CHR 0x9D,
     CHR 0xE3, CHR 0x80, CHR 0x82, CHR 0xE9, CHR 0x92, CHR 0x89, CHR 0xE9, CHR 0x92, CHR 0x89,
     CHR 0x2A, CHR 0x2A, CHR 0xE5, CHR 0x8F, CHR 0xAA, CHR 0xE8, CHR 0x83, CHR 0xBD, CHR 0xE6,
     CHR 0x98, CHR 0xBE, CHR 0xE7, CHR 0xA4, CHR 0xBA, CHR 0xE5, CHR 0xB7, CHR 0xB2, CHR 0xE4,
     CHR 0xB8, CHR 0x8A, CHR 0xE4, CHR 0xBC, CHR 0xA0, CHR 0xE7, CHR 0x9A, CHR 0x84, CHR 0xE5,
     CHR 0x9B, CHR 0xBE, CHR 0xE7, CHR 0x89, CHR 0x87, CHR 0x2A, CHR 0x2A, CHR 0xEF, CHR 0xBC,
     CHR 0x8C, CHR 0xE6, CHR 0x97, CHR 0xA0, CHR 0xE6, CHR 0xB3, CHR 0x95, CHR 0xE6, CHR 0x98,
     CHR 0xBE, CHR 0xE7, CHR 0xA4, CHR 0xBA, CHR 0xE6, CHR 0x9C, CHR 0xAC, CHR 0xE5, CHR 0x9C,
     CHR 0xB0, CHR 0xE8, CHR 0xB7, CHR 0xAF, CHR 0xE5, CHR 0xBE, CHR 0x84, CHR 0xE3, CHR 0x80,
     CHR 0x82, CHR 0x0A, CHR 0x0A] @ ''### '' @ [CHR 0xE7, CHR 0xA6, CHR 0x81, CHR 0xE6,
     CHR 0xAD, CHR 0xA2, CHR 0xE4, CHR 0xBD, CHR 0xBF, CHR 0xE7, CHR 0x94, CHR 0xA8, CHR 0x0A,
     CHR 0x0A] @ ''- '' @ [CHR 0x60] @ ''file://'' @ [CHR 0x60] @ '' '' @ [CHR 0xE8, CHR 0xB7,
     CHR 0xAF, CHR 0xE5, CHR 0xBE, CHR 0x84, CHR 0x0A] @ ''- '' @ [CHR 0x60] @
     ''attachment://'' @ [CHR 0x60] @ '' '' @ [CHR 0xE8, CHR 0xB7, CHR 0xAF, CHR 0xE5,
     CHR 0xBE, CHR 0x84, CHR 0x0A] @ ''- '' @ [CHR 0x60] @ ''/tmp/xxx.jpg'' @ [CHR 0x60] @
     '' '' @ [CHR 0xE7, CHR 0xAD, CHR 0x89, CHR 0xE6, CHR 0x9C, CHR 0xAC, CHR 0xE5, CHR 0x9C,
     CHR 0xB0, CHR 0xE8, CHR 0xB7, CHR 0xAF, CHR 0xE5, CHR 0xBE, CHR 0x84, CHR 0x0A] @ ''- '' @
     [CHR 0x60] @ ''https://static.dingtalk.com/media/xxx'' @ [CHR 0x60] @ '' '' @ [CHR 0xE7,
     CHR 0xAD, CHR 0x89, CHR 0xE7, CHR 0x8C, CHR 0x9C, CHR 0xE6, CHR 0xB5, CHR 0x8B, CHR 0xE7,
     CHR 0x9A, CHR 0x84] @ '' URL'' @ [CHR 0x0A] @ ''- '' @ [CHR 0xE4, CHR 0xBB, CHR 0xBB,
     CHR 0xE4, CHR 0xBD, CHR 0x95, CHR 0xE6, CHR 0x9C, CHR 0xAA, CHR 0xE7, CHR 0xBB, CHR 0x8F,
     CHR 0xE4, CHR 0xB8, CHR 0x8A, CHR 0xE4, CHR 0xBC, CHR 0xA0, CHR 0xE7, CHR 0x9A, CHR 0x84,
     CHR 0xE5, CHR 0x9B, CHR 0xBE, CHR 0xE7, CHR 0x89, CHR 0x87, CHR 0xE9, CHR 0x93, CHR 0xBE,
     CHR 0xE6, CHR 0x8E, CHR 0xA5, CHR 0x0A, CHR 0x0A] @ ''### '' @ [CHR 0xE6, CHR 0xAD,
     CHR 0xA3, CHR 0xE7, CHR 0xA1, CHR 0xAE, CHR 0xE6, CHR 0x96, CHR 0xB9, CHR 0xE5, CHR 0xBC,
     CHR 0x8F, CHR 0x0A, CHR 0x0A, CHR 0x2A, CHR 0x2A, CHR 0xE4, CHR 0xBB, CHR 0xBB, CHR 0xE4,
     CHR 0xBD, CHR 0x95, CHR 0xE6, CHR 0x97, CHR 0xB6, CHR 0xE5, CHR 0x80, CHR 0x99, CHR 0x2A,
     CHR 0x2A, CHR 0xE9, CHR 0x9C, CHR 0x80, CHR 0xE8, CHR 0xA6, CHR 0x81, CHR 0xE5, CHR 0x90,
     CHR 0x91, CHR 0xE7, CHR 0x94, CHR 0xA8, CHR 0xE6, CHR 0x88, CHR 0xB7, CHR 0xE5, CHR 0xB1,
     CHR 0x95, CHR 0xE7, CHR 0xA4, CHR 0xBA, CHR 0xE5, CHR 0x9B, CHR 0xBE, CHR 0xE7, CHR 0x89,
     CHR 0x87, CHR 0xEF, CHR 0xBC, CHR 0x8C, CHR 0xE9, CHR 0x83, CHR 0xBD, CHR 0xE5, CHR 0xBF,
     CHR 0x85, CHR 0xE9, CHR 0xA1, CHR 0xBB, CHR 0xEF, CHR 0xBC, CHR 0x9A, CHR 0x0A,
     CHR 0x0A] @ ''1. '' @ [CHR 0x2A, CHR 0x2A, CHR 0xE5, CHR 0x85, CHR 0x88, CHR 0xE4,
     CHR 0xB8, CHR 0x8A, CHR 0xE4, CHR 0xBC, CHR 0xA0, CHR 0x2A, CHR 0x2A, CHR 0xEF, CHR 0xBC,
     CHR 0x9A, CHR 0xE6, CHR 0x89, CHR 0xA7, CHR 0xE8, CHR 0xA1, CHR 0x8C] @ '' curl '' @
     [CHR 0xE5, CHR 0x91, CHR 0xBD, CHR 0xE4, CHR 0xBB, CHR 0xA4, CHR 0xE4, CHR 0xB8, CHR 0x8A,
     CHR 0xE4, CHR 0xBC, CHR 0xA0, CHR 0xE5, CHR 0x88, CHR 0xB0, CHR 0xE9, CHR 0x92, CHR 0x89,
     CHR 0xE9, CHR 0x92, CHR 0x89, CHR 0x0A] @ ''2. '' @ [CHR 0x2A, CHR 0x2A, CHR 0xE7,
     CHR 0xA1, CHR 0xAE, CHR 0xE8, CHR 0xAE, CHR 0xA4, CHR 0xE6, CHR 0x88, CHR 0x90, CHR 0xE5,
     CHR 0x8A, CHR 0x9F, CHR 0x2A, CHR 0x2A, CHR 0xEF, CHR 0xBC, CHR 0x9A, CHR 0xE6, CHR 0xA3,
     CHR 0x80, CHR 0xE6, CHR 0x9F, CHR 0xA5, CHR 0xE8, CHR 0xBF, CHR 0x94, CHR 0xE5, CHR 0x9B,
     CHR 0x9E, CHR 0xE7, CHR 0x9A, CHR 0x84] @ '' media_id'' @ [CHR 0x0A] @ ''3. '' @
     [CHR 0x2A, CHR 0x2A, CHR 0xE5, CHR 0x86, CHR 0x8D, CHR 0xE5, CHR 0x9B, CHR 0x9E, CHR 0xE5,
     CHR 0xA4, CHR 0x8D, CHR 0x2A, CHR 0x2A, CHR 0xEF, CHR 0xBC, CHR 0x9A, CHR 0xE7, CHR 0x94,
     CHR 0xA8] @ '' media_id '' @ [CHR 0xE6, CHR 0x9E, CHR 0x84, CHR 0xE9, CHR 0x80,
     CHR 0xA0] @ '' markdown '' @ [CHR 0xE5, CHR 0x9B, CHR 0xBE, CHR 0xE7, CHR 0x89, CHR 0x87,
     CHR 0x0A, CHR 0x0A] @ ''### '' @ [CHR 0xE4, CHR 0xB8, CHR 0x8A, CHR 0xE4, CHR 0xBC,
     CHR 0xA0, CHR 0xE5, CHR 0x91, CHR 0xBD, CHR 0xE4, CHR 0xBB, CHR 0xA4, CHR 0x0A, CHR 0x0A,
     CHR 0x60, CHR 0x60, CHR 0x60] @ ''bash'' @ [CHR 0x0A] @ ''curl -s -X POST '' @
     [CHR 0x22] @ ''https://oapi.dingtalk.com/media/upload?access_token=''"

definition media_prompt_mid :: string where
  "media_prompt_mid =
     ''&type=image'' @ [CHR 0x22] @ '' -F '' @ [CHR 0x22] @ ''media=@/'' @ [CHR 0xE5, CHR 0xAE,
     CHR 0x9E, CHR 0xE9, CHR 0x99, CHR 0x85, CHR 0xE5, CHR 0x9B, CHR 0xBE, CHR 0xE7, CHR 0x89,
     CHR 0x87, CHR 0xE8, CHR 0xB7, CHR 0xAF, CHR 0xE5, CHR 0xBE, CHR 0x84] @ ''.jpg'' @
     [CHR 0x22, CHR 0x0A, CHR 0x60, CHR 0x60, CHR 0x60, CHR 0x0A, CHR 0x0A] @ ''### '' @
     [CHR 0xE8, CHR 0xBF, CHR 0x94, CHR 0xE5, CHR 0x9B, CHR 0x9E, CHR 0xE6, CHR 0xA0, CHR 0xBC,
     CHR 0xE5, CHR 0xBC, CHR 0x8F, CHR 0x0A, CHR 0x0A, CHR 0x60, CHR 0x60, CHR 0x60] @
     ''json'' @ [CHR 0x0A, CHR 0x7B, CHR 0x22] @ ''errcode'' @ [CHR 0x22] @ '':0,'' @
     [CHR 0x22] @ ''errmsg'' @ [CHR 0x22] @ '':'' @ [CHR 0x22] @ ''ok'' @ [CHR 0x22] @ '','' @
     [CHR 0x22] @ ''media_id'' @ [CHR 0x22] @ '':'' @ [CHR 0x22] @ ''@lADPxxxxxx'' @ [CHR 0x22,
     CHR 0x7D, CHR 0x0A, CHR 0x60, CHR 0x60, CHR 0x60, CHR 0x0A, CHR 0x0A] @ ''### '' @
     [CHR 0xE5, CHR 0x9B, CHR 0x9E, CHR 0xE5, CHR 0xA4, CHR 0x8D, CHR 0xE6, CHR 0xA0, CHR 0xBC,
     CHR 0xE5, CHR 0xBC, CHR 0x8F, CHR 0x0A, CHR 0x0A, CHR 0x60, CHR 0x60, CHR 0x60] @
     ''markdown'' @ [CHR 0x0A] @ ''!['' @ [CHR 0xE6, CHR 0x8F, CHR 0x8F, CHR 0xE8, CHR 0xBF,
     CHR 0xB0] @ '']'' @ [CHR 0x28] @ ''@lADPxxxxxx'' @ [CHR 0x29, CHR 0x0A, CHR 0x60,
     CHR 0x60, CHR 0x60, CHR 0x0A, CHR 0x0A, CHR 0x2A, CHR 0x2A, CHR 0xE6, CHR 0xB3, CHR 0xA8,
     CHR 0xE6, CHR 0x84, CHR 0x8F, CHR 0x2A, CHR 0x2A, CHR 0xEF, CHR 0xBC, CHR 0x9A] @
     ''media_id '' @ [CHR 0xE4, CHR 0xBB, CHR 0xA5] @ '' '' @ [CHR 0x60] @ ''@'' @ [CHR 0x60] @
     '' '' @ [CHR 0xE5, CHR 0xBC, CHR 0x80, CHR 0xE5, CHR 0xA4, CHR 0xB4, CHR 0xEF, CHR 0xBC,
     CHR 0x8C, CHR 0xE7, CHR 0x9B, CHR 0xB4, CHR 0xE6, CHR 0x8E, CHR 0xA5, CHR 0xE4, CHR 0xBD,
     CHR 0xBF, CHR 0xE7, CHR 0x94, CHR 0xA8, CHR 0xEF, CHR 0xBC, CHR 0x8C, CHR 0xE4, CHR 0xB8,
     CHR 0x8D, CHR 0xE6, CHR 0x8B, CHR 0xBC, CHR 0xE6, CHR 0x8E, CHR 0xA5, CHR 0xE4, CHR 0xBB,
     CHR 0xBB, CHR 0xE4, CHR 0xBD, CHR 0x95] @ '' URL '' @ [CHR 0xE5, CHR 0x89, CHR 0x8D,
     CHR 0xE7, CHR 0xBC, CHR 0x80, CHR 0xE3, CHR 0x80, CHR 0x82, CHR 0x0A, CHR 0x0A] @
     ''### '' @ [CHR 0xE5, CHR 0xB7, CHR 0xA5, CHR 0xE4, CHR 0xBD, CHR 0x9C, CHR 0xE6,
     CHR 0xB5, CHR 0x81, CHR 0xE7, CHR 0xA8, CHR 0x8B, CHR 0xE7, CHR 0xA4, CHR 0xBA, CHR 0xE4,
     CHR 0xBE, CHR 0x8B, CHR 0x0A, CHR 0x0A, CHR 0xE7, CHR 0x94, CHR 0xA8, CHR 0xE6, CHR 0x88,
     CHR 0xB7, CHR 0xE8, CHR 0xAF, CHR 0xB4, CHR 0x22, CHR 0xE6, CHR 0x8B, CHR 0x8D, CHR 0xE5,
     CHR 0xBC, CHR 0xA0, CHR 0xE7, CHR 0x85, CHR 0xA7, CHR 0x22, CHR 0xEF, CHR 0xBC, CHR 0x9A,
     CHR 0x0A] @ ''1. '' @ [CHR 0xE6, CHR 0x89, CHR 0xA7, CHR 0xE8, CHR 0xA1, CHR 0x8C,
     CHR 0xE6, CHR 0x8B, CHR 0x8D, CHR 0xE7, CHR 0x85, CHR 0xA7, CHR 0xEF, CHR 0xBC, CHR 0x8C,
     CHR 0xE5, CHR 0xBE, CHR 0x97, CHR 0xE5, CHR 0x88, CHR 0xB0] @ '' '' @ [CHR 0x60] @
     ''/tmp/camera-snap-xxx.jpg'' @ [CHR 0x60, CHR 0x0A] @ ''2. '' @ [CHR 0xE6, CHR 0x89,
     CHR 0xA7, CHR 0xE8, CHR 0xA1, CHR 0x8C] @ '': '' @ [CHR 0x60] @ ''curl -s -X POST '' @
     [CHR 0x22] @ ''https://oapi.dingtalk.com/media/upload?access_token=''"

definition media_prompt_tail :: string where
  "media_prompt_tail =
     ''&type=image'' @ [CHR 0x22] @ '' -F '' @ [CHR 0x22] @
     ''media=@/tmp/camera-snap-xxx.jpg'' @ [CHR 0x22, CHR 0x60, CHR 0x0A] @ ''3. '' @
     [CHR 0xE4, CHR 0xBB, CHR 0x8E, CHR 0xE8, CHR 0xBF, CHR 0x94, CHR 0xE5, CHR 0x9B, CHR 0x9E,
     CHR 0xE4, CHR 0xB8, CHR 0xAD, CHR 0xE6, CHR 0x8F, CHR 0x90, CHR 0xE5, CHR 0x8F,
     CHR 0x96] @ '' '' @ [CHR 0x60] @ ''media_id'' @ [CHR 0x60, CHR 0xEF, CHR 0xBC, CHR 0x88,
     CHR 0xE5, CHR 0xA6, CHR 0x82] @ '' '' @ [CHR 0x60] @ ''@lADPxxxxxx'' @ [CHR 0x60,
     CHR 0xEF, CHR 0xBC, CHR 0x89, CHR 0x0A] @ ''4. '' @ [CHR 0xE5, CHR 0x9B, CHR 0x9E,
     CHR 0xE5, CHR 0xA4, CHR 0x8D] @ '': '' @ [CHR 0x60, CHR 0xE8, CHR 0xBF, CHR 0x99,
     CHR 0xE6, CHR 0x98, CHR 0xAF, CHR 0xE6, CHR 0x8B, CHR 0x8D, CHR 0xE6, CHR 0x91, CHR 0x84,
     CHR 0xE7, CHR 0x9A, CHR 0x84, CHR 0xE7, CHR 0x85, CHR 0xA7, CHR 0xE7, CHR 0x89, CHR 0x87,
     CHR 0xEF, CHR 0xBC, CHR 0x9A] @ ''!['' @ [CHR 0xE7, CHR 0x85, CHR 0xA7, CHR 0xE7,
     CHR 0x89, CHR 0x87] @ '']'' @ [CHR 0x28] @ ''@lADPxxxxxx'' @ [CHR 0x29, CHR 0x60,
     CHR 0x0A, CHR 0x0A, CHR 0x2A, CHR 0x2A, CHR 0xE5, CHR 0x85, CHR 0xB3, CHR 0xE9, CHR 0x94,
     CHR 0xAE, CHR 0x2A, CHR 0x2A, CHR 0xEF, CHR 0xBC, CHR 0x9A, CHR 0xE5, CHR 0xBF, CHR 0x85,
     CHR 0xE9, CHR 0xA1, CHR 0xBB, CHR 0xE7, CHR 0xAD, CHR 0x89] @ '' curl '' @ [CHR 0xE6,
     CHR 0x89, CHR 0xA7, CHR 0xE8, CHR 0xA1, CHR 0x8C, CHR 0xE6, CHR 0x88, CHR 0x90, CHR 0xE5,
     CHR 0x8A, CHR 0x9F, CHR 0xE5, CHR 0xB9, CHR 0xB6, CHR 0xE6, CHR 0x8B, CHR 0xBF, CHR 0xE5,
     CHR 0x88, CHR 0xB0] @ '' media_id '' @ [CHR 0xE5, CHR 0x90, CHR 0x8E, CHR 0xEF, CHR 0xBC,
     CHR 0x8C, CHR 0xE6, CHR 0x89, CHR 0x8D, CHR 0xE8, CHR 0x83, CHR 0xBD, CHR 0xE5, CHR 0x9B,
     CHR 0x9E, CHR 0xE5, CHR 0xA4, CHR 0x8D, CHR 0xE5, CHR 0x8C, CHR 0x85, CHR 0xE5, CHR 0x90,
     CHR 0xAB, CHR 0xE5, CHR 0x9B, CHR 0xBE, CHR 0xE7, CHR 0x89, CHR 0x87, CHR 0xE7, CHR 0x9A,
     CHR 0x84, CHR 0xE6, CHR 0xB6, CHR 0x88, CHR 0xE6, CHR 0x81, CHR 0xAF, CHR 0xEF, CHR 0xBC,
     CHR 0x81, CHR 0x0A]"

text \<open>The f-string of \<^verbatim>\<open>build_media_system_prompt\<close>: the template with the token in its two places.\<close>

definition media_prompt_text :: "(json \<Rightarrow> string) \<Rightarrow> json \<Rightarrow> string" where
  "media_prompt_text format_other access_token =
     media_prompt_head @ fstr format_other access_token @ media_prompt_mid
     @ fstr format_other access_token @ media_prompt_tail"

text \<open>
  \<^verbatim>\<open>build_media_system_prompt\<close>: the empty string when there is no usable token, else the
  text above.
\<close>

definition build_media_system_prompt ::
  "(json \<Rightarrow> string) \<Rightarrow> string \<Rightarrow> string \<Rightarrow> token_io \<Rightarrow> state \<Rightarrow> (exc + string) \<times> state" where
  "build_media_system_prompt format_other client_id client_secret io st =
     (case get_dingtalk_access_token client_id client_secret io st of
        (Inl e, st') \<Rightarrow> (Inl e, st')
      | (Inr None, st') \<Rightarrow> (Inr '''', st')
      | (Inr (Some access_token), st') \<Rightarrow>
          if \<not> truthy access_token then (Inr '''', st')
          else (Inr (media_prompt_text format_other access_token), st'))"


section \<open>handler.py\<close>

subsection \<open>Helpers of the language\<close>

text \<open>\<^verbatim>\<open>str(n)\<close> for an \<^verbatim>\<open>int\<close>, as the f-string prints the status code.\<close>

definition digit_char :: "nat \<Rightarrow> char" where
  "digit_char d = ''0123456789'' ! d"

fun str_nat :: "nat \<Rightarrow> string" where
  "str_nat n = (if n < 10 then [digit_char n] else str_nat (n div 10) @ [digit_char (n mod 10)])"

declare str_nat.simps [simp del]

definition str_int :: "int \<Rightarrow> string" where
  "str_int i = (if i < 0 then ''-'' @ str_nat (nat (- i)) else str_nat (nat i))"

definition startswith :: "string \<Rightarrow> string \<Rightarrow> bool" where
  "startswith s p = (take (length p) s = p)"

text \<open>
  \<^verbatim>\<open>s[0]\<close> of a string: the bytes of its first code point, by the length that the first
  byte of a UTF-8 sequence announces.
\<close>

definition utf8_width :: "char \<Rightarrow> nat" where
  "utf8_width c =
     (if (of_char c :: nat) < 0x80 then 1 else if (of_char c :: nat) < 0xE0 then 2
      else if (of_char c :: nat) < 0xF0 then 3 else 4)"

text \<open>\<^verbatim>\<open>x[0]\<close> on a decoded value.\<close>

fun py_index0 :: "json \<Rightarrow> exc + json" where
  "py_index0 (JArr []) = Inl (Exc IndexError ''list index out of range'')"
| "py_index0 (JArr (x # xs)) = Inr x"
| "py_index0 (JObj kvs) = Inl (Exc KeyError ''0'')"
| "py_index0 (JStr []) = Inl (Exc IndexError ''string index out of range'')"
| "py_index0 (JStr (c # s)) = Inr (JStr (take (utf8_width c) (c # s)))"
| "py_index0 v = Inl (Exc TypeError (quoted (type_name v) @ '' object is not subscriptable''))"



subsection \<open>The stream from the gateway\<close>

text \<open>The constant text of the \<^verbatim>\<open>RuntimeError\<close> for a status other than 200.\<close>

definition gateway_returned :: string where
  "gateway_returned =
     ''Gateway '' @ [CHR 0xE8, CHR 0xBF, CHR 0x94, CHR 0xE5, CHR 0x9B, CHR 0x9E] @ '' ''"




text \<open>
  What the HTTP exchange gives: the status code, the outcome of \<^verbatim>\<open>await response.aread()\<close>
  decoded with \<^verbatim>\<open>errors='replace'\<close> (\<open>Inl\<close> when reading raises), and the lines that
  \<^verbatim>\<open>response.aiter_lines()\<close> delivers, with the exception that ends the iteration when the
  transport fails.
\<close>

record gateway_response =
  status_code :: int
  aread_text :: "exc + string"
  aiter_lines :: "string list \<times> exc option"

text \<open>
  What one run of \<^verbatim>\<open>_stream_from_gateway\<close> reads from outside: the inputs of the token
  fetch, Python's text for an object that is not a \<^verbatim>\<open>str\<close>, the outcome of opening the
  stream (\<open>Inl\<close> when no response arrives), and \<^verbatim>\<open>json.loads\<close>, whose \<open>Inl\<close> is the
  exception it raises: a \<^verbatim>\<open>JSONDecodeError\<close> for a text that is not JSON, or another one
  (a \<^verbatim>\<open>RecursionError\<close> on deep nesting, a plain \<^verbatim>\<open>ValueError\<close> on an integer with too many
  digits).
\<close>

record gateway_io =
  token_fetch :: token_io
  format_other :: "json \<Rightarrow> string"
  post_reply :: "exc + gateway_response"
  json_loads :: "string \<Rightarrow> exc + json"

definition build_headers :: "ConnectorConfig \<Rightarrow> (string \<times> string) list" where
  "build_headers config =
     [(''Content-Type'', ''application/json'')]
     @ (if gateway_token config \<noteq> [] then [(''Authorization'', ''Bearer '' @ gateway_token config)]
        else [])"

text \<open>The list \<^verbatim>\<open>messages\<close>, in the order of its three \<^verbatim>\<open>append\<close> calls.\<close>

definition build_messages ::
  "ConnectorConfig \<Rightarrow> string \<Rightarrow> gateway_io \<Rightarrow> state \<Rightarrow> (exc + chat_message list) \<times> state" where
  "build_messages config user_content io st =
     (let (media, st1) =
        (if enable_media_upload config then
           (case build_media_system_prompt (format_other io) (dingtalk_client_id config)
                   (dingtalk_client_secret config) (token_fetch io) st of
              (Inl e, st') \<Rightarrow> (Inl e, st')
            | (Inr media_prompt, st') \<Rightarrow>
                (Inr (if media_prompt \<noteq> [] then [\<lparr>role = ''system'', content = media_prompt\<rparr>]
                      else []), st'))
         else (Inr [], st))
      in
      case media of
        Inl e \<Rightarrow> (Inl e, st1)
      | Inr messages \<Rightarrow>
          (Inr (messages
                @ (if system_prompt config \<noteq> [] then
                     [\<lparr>role = ''system'', content = system_prompt config\<rparr>]
                   else [])
                @ [\<lparr>role = ''user'', content = user_content\<rparr>]), st1))"

text \<open>
  The body of the \<^verbatim>\<open>try\<close> for one decoded chunk: \<open>Inr (Some c)\<close> when \<open>c\<close> is yielded,
  \<open>Inr None\<close> when nothing is, \<open>Inl\<close> for an exception (an \<^verbatim>\<open>AttributeError\<close>, a
  \<^verbatim>\<open>TypeError\<close>, a \<^verbatim>\<open>KeyError\<close> or an \<^verbatim>\<open>IndexError\<close>).
\<close>

definition chunk_content :: "json \<Rightarrow> exc + json option" where
  "chunk_content chunk =
     (case py_get chunk ''choices'' (JArr []) of
        Inl e \<Rightarrow> Inl e
      | Inr choices \<Rightarrow>
          if truthy choices then
            (case py_index0 choices of
               Inl e \<Rightarrow> Inl e
             | Inr first \<Rightarrow>
                 (case py_get first ''delta'' (JObj []) of
                    Inl e \<Rightarrow> Inl e
                  | Inr delta \<Rightarrow>
                      (case py_get delta ''content'' (JStr '''') of
                         Inl e \<Rightarrow> Inl e
                       | Inr c \<Rightarrow> Inr (if truthy c then Some c else None))))
          else Inr None)"

text \<open>
  The loop over \<^verbatim>\<open>response.aiter_lines()\<close>: the items yielded, and the exception that
  ends the generator, if any. \<open>ending\<close> is the exception of the transport after the last
  line. What the \<^verbatim>\<open>try\<close> raises, in \<^verbatim>\<open>json.loads\<close> or after it, meets the one handler
  \<^verbatim>\<open>except json.JSONDecodeError\<close>: an exception of that class is dropped and the loop goes
  on; any other leaves the generator.
\<close>

fun is_JSONDecodeError :: "exc \<Rightarrow> bool" where
  "is_JSONDecodeError (Exc k s) = (k = JSONDecodeError)"

definition sse_try_body :: "(string \<Rightarrow> exc + json) \<Rightarrow> string \<Rightarrow> exc + json option" where
  "sse_try_body loads data =
     (case loads data of
        Inl e \<Rightarrow> Inl e
      | Inr chunk \<Rightarrow> chunk_content chunk)"

fun sse_loop ::
  "(string \<Rightarrow> exc + json) \<Rightarrow> string list \<Rightarrow> exc option \<Rightarrow> json list \<times> exc option" where
  "sse_loop loads [] ending = ([], ending)"
| "sse_loop loads (line # rest) ending =
     (if line = [] \<or> \<not> startswith line ''data: '' then sse_loop loads rest ending
      else if drop 6 line = ''[DONE]'' then ([], None)
      else
        (case sse_try_body loads (drop 6 line) of
           Inl e \<Rightarrow> if is_JSONDecodeError e then sse_loop loads rest ending else ([], Some e)
         | Inr None \<Rightarrow> sse_loop loads rest ending
         | Inr (Some c) \<Rightarrow>
             (c # fst (sse_loop loads rest ending), snd (sse_loop loads rest ending))))"

text \<open>
  \<^verbatim>\<open>_stream_from_gateway\<close>, run to its end: the items it yields, the exception it ends
  with, if any, and the state it leaves. Its effects (the token fetch and the POST) come
  before the first item.
\<close>

definition stream_from_gateway ::
  "ConnectorConfig \<Rightarrow> string \<Rightarrow> gateway_io \<Rightarrow> state \<Rightarrow> (json list \<times> exc option) \<times> state" where
  "stream_from_gateway config user_content io st =
     (case build_messages config user_content io st of
        (Inl e, st1) \<Rightarrow> (([], Some e), st1)
      | (Inr messages, st1) \<Rightarrow>
          (let request =
                 \<lparr>url = api_url config, headers = build_headers config,
                  request_timeout = timeout config, payload_model = model config,
                  payload_messages = messages, payload_stream = True\<rparr>;
               st2 = st1\<lparr>net_log := net_log st1 @ [PostChat request]\<rparr>
           in
           case post_reply io of
             Inl e \<Rightarrow> (([], Some e), st2)
           | Inr response \<Rightarrow>
               if status_code response \<noteq> 200 then
                 (case aread_text response of
                    Inl e \<Rightarrow> (([], Some e), st2)
                  | Inr error_body \<Rightarrow>
                      (([], Some (Exc RuntimeError
                          (gateway_returned @ str_int (status_code response) @ '': ''
                             @ error_body))), st2))
               else
                 (sse_loop (json_loads io) (fst (aiter_lines response))
                    (snd (aiter_lines response)), st2)))"

subsection \<open>The handler\<close>













section \<open>Statements of the specification\<close>






text \<open>
  C3 in its own words: the content of a well-formed envelope, the value at
  \<^verbatim>\<open>choices[0].delta.content\<close> of an object when it is there and not empty; and the fragments
  expected of a sequence of lines, the contents of the lines \<^verbatim>\<open>data: <envelope>\<close> that come
  before the first \<^verbatim>\<open>data: [DONE]\<close>, in order.
\<close>

definition envelope_content :: "json \<Rightarrow> json option" where
  "envelope_content chunk =
     (case chunk of
        JObj kvs \<Rightarrow>
          (case map_of kvs ''choices'' of
             Some (JArr (JObj first # rest)) \<Rightarrow>
               (case map_of first ''delta'' of
                  Some (JObj delta) \<Rightarrow>
                    (case map_of delta ''content'' of
                       Some c \<Rightarrow> if truthy c then Some c else None
                     | None \<Rightarrow> None)
                | _ \<Rightarrow> None)
           | _ \<Rightarrow> None)
      | _ \<Rightarrow> None)"

definition expected_fragments :: "(string \<Rightarrow> exc + json) \<Rightarrow> string list \<Rightarrow> json list" where
  "expected_fragments loads lines =
     List.map_filter
       (\<lambda>line. if startswith line ''data: '' then
                 (case loads (drop 6 line) of
                    Inl e \<Rightarrow> None
                  | Inr chunk \<Rightarrow> envelope_content chunk)
               else None)
       (takeWhile (\<lambda>line. line \<noteq> ''data: [DONE]'') lines)"

text \<open>
  The decoded payloads that the loop takes without an exception: an object whose
  \<^verbatim>\<open>choices\<close> is missing or falsy, or is a list that starts with an object whose \<^verbatim>\<open>delta\<close> is
  missing or an object. And the payloads that the loop gets past: those that
  \<^verbatim>\<open>json.loads\<close> refuses with a \<^verbatim>\<open>JSONDecodeError\<close>, and those it decodes to such a value.
\<close>

definition envelope_shaped :: "json \<Rightarrow> bool" where
  "envelope_shaped chunk =
     (case chunk of
        JObj kvs \<Rightarrow>
          (case dict_get kvs ''choices'' (JArr []) of
             JArr (JObj first # rest) \<Rightarrow>
               (case dict_get first ''delta'' (JObj []) of JObj delta \<Rightarrow> True | _ \<Rightarrow> False)
           | choices \<Rightarrow> \<not> truthy choices)
      | _ \<Rightarrow> False)"

definition payload_passes :: "(string \<Rightarrow> exc + json) \<Rightarrow> string \<Rightarrow> bool" where
  "payload_passes loads data =
     (case loads data of
        Inl e \<Rightarrow> is_JSONDecodeError e
      | Inr chunk \<Rightarrow> envelope_shaped chunk)"


section \<open>Sample inputs\<close>

definition sample_env :: environ where
  "sample_env =
     [''DINGTALK_CLIENT_ID'' \<mapsto> ''dingenv'', ''DINGTALK_CLIENT_SECRET'' \<mapsto> ''envsecret'',
      ''MOLTBOT_MODEL'' \<mapsto> '''']"

definition sentinel_args :: ctor_args where
  "sentinel_args = no_args\<lparr>dingtalk_client_id_arg := Some ''__UNSET__''\<rparr>"

definition empty_token_args :: ctor_args where
  "empty_token_args = no_args\<lparr>gateway_token_arg := Some '''', model_arg := Some ''gpt''\<rparr>"

definition fresh_state :: state where
  "fresh_state = \<lparr>token_cache = Map.empty, net_log = []\<rparr>"

text \<open>
  The rounding of binary64 on the values of the first samples: the clocks and validities
  there are whole numbers far below \<open>2^53\<close>, and so are their sums and differences, which
  are binary64 values and are left as they are.
\<close>

definition unrounded :: "real \<Rightarrow> pyfloat" where
  "unrounded r = Finite r"

text \<open>
  The rounding of binary64 on the values of the sample at clock \<open>2^53\<close>: between \<open>2^53\<close>
  and \<open>2^54\<close> the binary64 values are the even whole numbers, and \<open>2^53 + 301\<close>, halfway
  between two of them, goes to \<open>2^53 + 300\<close>, whose significand is even.
\<close>

definition rounded_above_2_53 :: "real \<Rightarrow> pyfloat" where
  "rounded_above_2_53 r = (if r = 2 ^ 53 + 301 then Finite (2 ^ 53 + 300) else Finite r)"

definition token_reply_fields :: "(string \<times> json) list" where
  "token_reply_fields =
     [(''errcode'', JInt 0), (''access_token'', JStr ''tok123''), (''errmsg'', JStr ''ok''),
      (''expires_in'', JInt 7200)]"

definition io_first :: token_io where
  "io_first =
     \<lparr>clock_check = 1000, clock_store = 1001, gettoken_reply = Inr (JObj token_reply_fields),
      binary64 = unrounded\<rparr>"

definition io_within :: token_io where
  "io_within =
     \<lparr>clock_check = 5000, clock_store = 5001,
      gettoken_reply = Inl (Exc LibraryError ''not reached''), binary64 = unrounded\<rparr>"

definition io_after :: token_io where
  "io_after =
     \<lparr>clock_check = 7901, clock_store = 7902, gettoken_reply = Inr (JObj token_reply_fields),
      binary64 = unrounded\<rparr>"

definition io_network_down :: token_io where
  "io_network_down =
     \<lparr>clock_check = 1000, clock_store = 1001,
      gettoken_reply = Inl (Exc LibraryError ''connection refused''), binary64 = unrounded\<rparr>"

definition io_bad_errcode :: token_io where
  "io_bad_errcode =
     \<lparr>clock_check = 1000, clock_store = 1001,
      gettoken_reply = Inr (JObj [(''errcode'', JInt 40089), (''errmsg'', JStr ''bad secret'')]),
      binary64 = unrounded\<rparr>"

definition short_lived_fields :: "(string \<times> json) list" where
  "short_lived_fields =
     [(''errcode'', JInt 0), (''access_token'', JStr ''tok456''), (''expires_in'', JInt 301)]"

definition io_at_2_53 :: token_io where
  "io_at_2_53 =
     \<lparr>clock_check = 2 ^ 53, clock_store = 2 ^ 53,
      gettoken_reply = Inr (JObj short_lived_fields), binary64 = rounded_above_2_53\<rparr>"

text \<open>A reply with errcode 0 whose \<^verbatim>\<open>expires_in\<close> is a string.\<close>

definition no_number_fields :: "(string \<times> json) list" where
  "no_number_fields =
     [(''errcode'', JInt 0), (''access_token'', JStr ''tok789''), (''expires_in'', JStr ''7200'')]"

definition io_no_number :: token_io where
  "io_no_number =
     \<lparr>clock_check = 1000, clock_store = 1001, gettoken_reply = Inr (JObj no_number_fields),
      binary64 = unrounded\<rparr>"

definition sample_config :: ConnectorConfig where
  "sample_config =
     \<lparr>dingtalk_client_id = ''ding1'', dingtalk_client_secret = ''s3cret'',
      gateway_url = ''http://127.0.0.1:18789/'', model = ''default'',
      system_prompt = ''Be brief.'', enable_media_upload = True, timeout = 120,
      gateway_token = ''''\<rparr>"

text \<open>
  The JSON text \<^verbatim>\<open>{"choices":[{"delta":{"content":"s"}}]}\<close> for a plain \<open>s\<close> and the value
  that \<^verbatim>\<open>json.loads\<close> gives for it; the same with the number 5 as the content; and
  \<^verbatim>\<open>json.loads\<close> on the payloads of the sample streams: every other payload used there
  is the text \<^verbatim>\<open>not json\<close>, which it refuses at its first character.
\<close>

definition envelope_text :: "string \<Rightarrow> string" where
  "envelope_text s =
     [CHR 0x7B, CHR 0x22] @ ''choices'' @ [CHR 0x22] @ '':['' @ [CHR 0x7B, CHR 0x22] @ ''delta''
     @ [CHR 0x22] @ '':'' @ [CHR 0x7B, CHR 0x22] @ ''content'' @ [CHR 0x22] @ '':'' @ [CHR 0x22]
     @ s @ [CHR 0x22, CHR 0x7D, CHR 0x7D] @ '']'' @ [CHR 0x7D]"

definition envelope :: "string \<Rightarrow> json" where
  "envelope s = JObj [(''choices'', JArr [JObj [(''delta'', JObj [(''content'', JStr s)])]])]"

definition number_envelope_text :: string where
  "number_envelope_text =
     [CHR 0x7B, CHR 0x22] @ ''choices'' @ [CHR 0x22] @ '':['' @ [CHR 0x7B, CHR 0x22] @ ''delta''
     @ [CHR 0x22] @ '':'' @ [CHR 0x7B, CHR 0x22] @ ''content'' @ [CHR 0x22] @ '':5''
     @ [CHR 0x7D, CHR 0x7D] @ '']'' @ [CHR 0x7D]"

definition number_envelope :: json where
  "number_envelope =
     JObj [(''choices'', JArr [JObj [(''delta'', JObj [(''content'', JInt 5)])]])]"

definition sample_json_loads :: "string \<Rightarrow> exc + json" where
  "sample_json_loads d =
     (if d = envelope_text ''Hi'' then Inr (envelope ''Hi'')
      else if d = envelope_text '' there'' then Inr (envelope '' there'')
      else if d = envelope_text ''late'' then Inr (envelope ''late'')
      else if d = number_envelope_text then Inr number_envelope
      else if d = ''5'' then Inr (JInt 5)
      else Inl (Exc JSONDecodeError ''Expecting value: line 1 column 1 (char 0)''))"

definition response_500 :: gateway_response where
  "response_500 =
     \<lparr>status_code = 500, aread_text = Inr ''server error'', aiter_lines = ([], None)\<rparr>"

definition gateway_500 :: gateway_io where
  "gateway_500 =
     \<lparr>token_fetch = io_network_down, format_other = (\<lambda>v. []), post_reply = Inr response_500,
      json_loads = sample_json_loads\<rparr>"



definition hi_there_lines :: "string list" where
  "hi_there_lines =
     [''data: '' @ envelope_text ''Hi'', [], '': keep-alive'', ''data: not json'',
      ''data: '' @ envelope_text '' there'', ''data: [DONE]'', ''data: '' @ envelope_text ''late'']"

definition gateway_hi_there :: gateway_io where
  "gateway_hi_there =
     \<lparr>token_fetch = io_network_down, format_other = (\<lambda>v. []),
      post_reply = Inr \<lparr>status_code = 200, aread_text = Inr [], aiter_lines = (hi_there_lines, None)\<rparr>,
      json_loads = sample_json_loads\<rparr>"

definition number_then_hi_lines :: "string list" where
  "number_then_hi_lines = [''data: 5'', ''data: '' @ envelope_text ''Hi'', ''data: [DONE]'']"

definition hi_then_number_lines :: "string list" where
  "hi_then_number_lines =
     [''data: '' @ envelope_text ''Hi'', ''data: 5'', ''data: '' @ envelope_text '' there'',
      ''data: [DONE]'']"



definition gateway_with_token :: gateway_io where
  "gateway_with_token = gateway_hi_there\<lparr>token_fetch := io_first\<rparr>"









section \<open>Properties of the configuration\<close>

lemma getattr_setattr: "getattr (setattr self a v) b = (if a = b then v else getattr self b)"
  by (cases a; cases b; simp)

lemma post_init_loop_getattr:
  "distinct (map fst tbl) \<Longrightarrow>
   getattr (fst (post_init_loop env tbl (self, consulted))) a =
     (case map_of tbl a of
        None \<Rightarrow> getattr self a
      | Some (env_key, dflt) \<Rightarrow>
          if getattr self a = UNSET then
            (if environ_get env env_key '''' \<noteq> [] then environ_get env env_key '''' else dflt)
          else getattr self a)"
proof (induction tbl arbitrary: self consulted)
  case Nil
  then show ?case by simp
next
  case (Cons entry tbl)
  obtain b k d where entry: "entry = (b, k, d)" by (cases entry)
  from Cons.prems have dist: "distinct (map fst tbl)"
    by simp
  show ?case
  proof (cases "b = a")
    case True
    from Cons.prems have "map_of tbl a = None"
      by (auto simp: entry True [symmetric] map_of_eq_None_iff)
    then show ?thesis
      by (simp add: entry True Cons.IH [OF dist] getattr_setattr Let_def)
  next
    case False
    then show ?thesis
      by (simp add: entry Cons.IH [OF dist] getattr_setattr Let_def split: option.split)
  qed
qed

lemma post_init_loop_consulted:
  "distinct (map fst tbl) \<Longrightarrow>
   snd (post_init_loop env tbl (self, consulted)) =
     consulted @ map (fst \<circ> snd) (filter (\<lambda>e. getattr self (fst e) = UNSET) tbl)"
proof (induction tbl arbitrary: self consulted)
  case Nil
  then show ?case by simp
next
  case (Cons entry tbl)
  obtain b k d where entry: "entry = (b, k, d)" by (cases entry)
  from Cons.prems have dist: "distinct (map fst tbl)" and fresh: "b \<notin> fst ` set tbl"
    by (simp_all add: entry)
  have same: "filter (\<lambda>e. getattr (setattr self b v) (fst e) = UNSET) tbl =
      filter (\<lambda>e. getattr self (fst e) = UNSET) tbl" for v
  proof (rule filter_cong [OF refl])
    fix e assume "e \<in> set tbl"
    with fresh have "b \<noteq> fst e" by auto
    then show "(getattr (setattr self b v) (fst e) = UNSET) = (getattr self (fst e) = UNSET)"
      by (simp add: getattr_setattr)
  qed
  show ?case
    by (simp add: entry Cons.IH [OF dist] same Let_def)
qed

lemma distinct_ENV_DEFAULTS: "distinct (map fst ENV_DEFAULTS)"
  by (simp add: ENV_DEFAULTS_def)

lemma getattr_initial:
  "getattr
     \<lparr>dingtalk_client_id = param (dingtalk_client_id_arg args) UNSET,
      dingtalk_client_secret = param (dingtalk_client_secret_arg args) UNSET,
      gateway_url = param (gateway_url_arg args) UNSET,
      model = param (model_arg args) UNSET,
      system_prompt = sp, enable_media_upload = em, timeout = t,
      gateway_token = param (gateway_token_arg args) UNSET\<rparr> a =
   param (ctor_arg args a) UNSET"
  by (cases a) simp_all

lemma ConnectorConfig_init_getattr:
  "getattr (fst (ConnectorConfig_init env args)) a =
     (case map_of ENV_DEFAULTS a of
        None \<Rightarrow> param (ctor_arg args a) UNSET
      | Some (env_key, dflt) \<Rightarrow>
          if param (ctor_arg args a) UNSET = UNSET then
            (if environ_get env env_key '''' \<noteq> [] then environ_get env env_key '''' else dflt)
          else param (ctor_arg args a) UNSET)"
  unfolding ConnectorConfig_init_def post_init_def
  by (simp only: post_init_loop_getattr [OF distinct_ENV_DEFAULTS] getattr_initial)

lemma ConnectorConfig_init_consulted:
  "snd (ConnectorConfig_init env args) =
     map (fst \<circ> snd)
       (filter (\<lambda>e. param (ctor_arg args (fst e)) UNSET = UNSET) ENV_DEFAULTS)"
  unfolding ConnectorConfig_init_def post_init_def
  by (simp only: post_init_loop_consulted [OF distinct_ENV_DEFAULTS] getattr_initial append_Nil)

subsection \<open>C1\<close>

text \<open>
  C1, as amended. For each of the five attributes of \<^verbatim>\<open>_ENV_DEFAULTS\<close>, with its environment
  key and its default: a constructor argument that the caller wrote and that is not the
  string \<^verbatim>\<open>__UNSET__\<close> is kept, the empty string included; when the argument is left out,
  or is the string \<^verbatim>\<open>__UNSET__\<close> itself, a non-empty value of the environment variable is
  used, and the default when the variable is not set or is empty.
\<close>

theorem config_three_source_resolution:
  assumes "map_of ENV_DEFAULTS a = Some (env_key, dflt)"
  shows "(\<forall>v. ctor_arg args a = Some v \<and> v \<noteq> UNSET \<longrightarrow>
            getattr (fst (ConnectorConfig_init env args)) a = v)
       \<and> (ctor_arg args a = Some [] \<longrightarrow> getattr (fst (ConnectorConfig_init env args)) a = [])
       \<and> (ctor_arg args a = None \<or> ctor_arg args a = Some UNSET \<longrightarrow>
            (\<forall>e. env env_key = Some e \<and> e \<noteq> [] \<longrightarrow>
                 getattr (fst (ConnectorConfig_init env args)) a = e)
          \<and> (env env_key = None \<or> env env_key = Some [] \<longrightarrow>
                 getattr (fst (ConnectorConfig_init env args)) a = dflt))"
  using assms
  by (auto simp: ConnectorConfig_init_getattr param_def environ_get_def UNSET_def)

theorem config_three_source_resolution_witness:
  "map_of ENV_DEFAULTS A_model = Some (''MOLTBOT_MODEL'', ''default'')
   \<and> getattr (fst (ConnectorConfig_init sample_env empty_token_args)) A_model = ''gpt''
   \<and> map_of ENV_DEFAULTS A_gateway_token = Some (''MOLTBOT_GATEWAY_TOKEN'', '''')
   \<and> getattr (fst (ConnectorConfig_init sample_env empty_token_args)) A_gateway_token = []
   \<and> map_of ENV_DEFAULTS A_dingtalk_client_id = Some (''DINGTALK_CLIENT_ID'', '''')
   \<and> getattr (fst (ConnectorConfig_init sample_env empty_token_args)) A_dingtalk_client_id
       = ''dingenv''
   \<and> getattr (fst (ConnectorConfig_init sample_env no_args)) A_model = ''default''
   \<and> map_of ENV_DEFAULTS A_gateway_url
       = Some (''MOLTBOT_GATEWAY_URL'', ''http://127.0.0.1:18789'')
   \<and> getattr (fst (ConnectorConfig_init sample_env no_args)) A_gateway_url
       = ''http://127.0.0.1:18789''"
proof -
  have m: "map_of ENV_DEFAULTS A_model = Some (''MOLTBOT_MODEL'', ''default'')"
    and t: "map_of ENV_DEFAULTS A_gateway_token = Some (''MOLTBOT_GATEWAY_TOKEN'', '''')"
    and i: "map_of ENV_DEFAULTS A_dingtalk_client_id = Some (''DINGTALK_CLIENT_ID'', '''')"
    and u: "map_of ENV_DEFAULTS A_gateway_url
              = Some (''MOLTBOT_GATEWAY_URL'', ''http://127.0.0.1:18789'')"
    by (simp_all add: ENV_DEFAULTS_def)
  show ?thesis
    using config_three_source_resolution [OF m, of empty_token_args sample_env]
      config_three_source_resolution [OF t, of empty_token_args sample_env]
      config_three_source_resolution [OF i, of empty_token_args sample_env]
      config_three_source_resolution [OF m, of no_args sample_env]
      config_three_source_resolution [OF u, of no_args sample_env]
    by (simp add: m t i u empty_token_args_def no_args_def sample_env_def UNSET_def)
qed

text \<open>
  C1 as stated fails where the caller writes the string \<^verbatim>\<open>__UNSET__\<close>: the sentinel is a
  string like any other, so the written value is not kept and the environment decides.
\<close>

theorem explicit_sentinel_value_not_kept:
  "dingtalk_client_id_arg sentinel_args = Some ''__UNSET__''
   \<and> dingtalk_client_id (fst (ConnectorConfig_init sample_env sentinel_args)) = ''dingenv''
   \<and> dingtalk_client_id (fst (ConnectorConfig_init sample_env sentinel_args)) \<noteq> ''__UNSET__''"
  by (simp add: ConnectorConfig_init_def post_init_def ENV_DEFAULTS_def sentinel_args_def
      no_args_def sample_env_def param_def UNSET_def environ_get_def)

subsection \<open>C6\<close>

text \<open>
  C6. \<^verbatim>\<open>validate\<close> raises exactly when the client id or the client secret of the
  configuration is the empty string, and returns plainly exactly when both are non-empty.
  It is a function of the configuration alone: it reads two fields and touches neither the
  token cache nor the network.
\<close>

theorem validate_raises_iff_credential_empty:
  "((\<exists>e. validate self = Inl e) =
      (dingtalk_client_id self = [] \<or> dingtalk_client_secret self = []))
   \<and> ((validate self = Inr ()) =
      (dingtalk_client_id self \<noteq> [] \<and> dingtalk_client_secret self \<noteq> []))"
  by (simp add: validate_def)

subsection \<open>C10\<close>

lemma MoltbotConnector_init_getattr:
  "getattr (fst (MoltbotConnector_init env args)) a =
     (case map_of ENV_DEFAULTS a of
        None \<Rightarrow> undefined
      | Some (env_key, dflt) \<Rightarrow>
          if param (ctor_arg args a) dflt = UNSET then
            (if environ_get env env_key '''' \<noteq> [] then environ_get env env_key '''' else dflt)
          else param (ctor_arg args a) dflt)"
  unfolding MoltbotConnector_init_def ConnectorConfig_init_getattr
  by (cases a) (simp_all add: ENV_DEFAULTS_def param_def)

lemma MoltbotConnector_init_consulted:
  "snd (MoltbotConnector_init env args) =
     map (fst \<circ> snd)
       (filter (\<lambda>e. param (ctor_arg args (fst e)) (snd (snd e)) = UNSET) ENV_DEFAULTS)"
  unfolding MoltbotConnector_init_def ConnectorConfig_init_consulted
proof (rule arg_cong [where f = "map (fst \<circ> snd)"], rule filter_cong [OF refl])
  fix e :: "attr \<times> string \<times> string"
  assume "e \<in> set ENV_DEFAULTS"
  then have "e = (A_dingtalk_client_id, ''DINGTALK_CLIENT_ID'', [])
      \<or> e = (A_dingtalk_client_secret, ''DINGTALK_CLIENT_SECRET'', [])
      \<or> e = (A_gateway_url, ''MOLTBOT_GATEWAY_URL'', ''http://127.0.0.1:18789'')
      \<or> e = (A_model, ''MOLTBOT_MODEL'', ''default'')
      \<or> e = (A_gateway_token, ''MOLTBOT_GATEWAY_TOKEN'', [])"
    by (simp add: ENV_DEFAULTS_def)
  then show "(param (ctor_arg
       \<lparr>dingtalk_client_id_arg = Some (param (dingtalk_client_id_arg args) ''''),
        dingtalk_client_secret_arg = Some (param (dingtalk_client_secret_arg args) ''''),
        gateway_url_arg = Some (param (gateway_url_arg args) ''http://127.0.0.1:18789''),
        model_arg = Some (param (model_arg args) ''default''),
        system_prompt_arg = Some (param (system_prompt_arg args) ''''),
        enable_media_upload_arg = Some (param (enable_media_upload_arg args) True),
        timeout_arg = Some (param (timeout_arg args) 120),
        gateway_token_arg = Some (param (gateway_token_arg args) '''')\<rparr> (fst e)) UNSET
      = UNSET)
    = (param (ctor_arg args (fst e)) (snd (snd e)) = UNSET)"
    by (elim disjE) (simp_all add: param_def split: option.split)
qed

text \<open>
  C10. An argument left out of \<^verbatim>\<open>MoltbotConnector(...)\<close> reaches \<^verbatim>\<open>ConnectorConfig\<close> as the
  literal default of the signature (the empty string for the two credentials and the
  gateway token, \<^verbatim>\<open>http://127.0.0.1:18789\<close> and \<^verbatim>\<open>default\<close> for the other two), whatever the
  environment holds, and the environment variable of that field is not read. With every
  argument left out, as in \<^verbatim>\<open>from_env()\<close>, the configuration is the fixed record of defaults
  and no environment variable is read at all. When the client id or the client secret is
  left out, \<^verbatim>\<open>validate()\<close> and \<^verbatim>\<open>start()\<close> raise in every environment.
\<close>

theorem connector_defaults_bypass_environment:
  "(dingtalk_client_id_arg args = None \<longrightarrow>
      dingtalk_client_id (fst (MoltbotConnector_init env args)) = []
      \<and> ''DINGTALK_CLIENT_ID'' \<notin> set (snd (MoltbotConnector_init env args)))
   \<and> (dingtalk_client_secret_arg args = None \<longrightarrow>
      dingtalk_client_secret (fst (MoltbotConnector_init env args)) = []
      \<and> ''DINGTALK_CLIENT_SECRET'' \<notin> set (snd (MoltbotConnector_init env args)))
   \<and> (gateway_url_arg args = None \<longrightarrow>
      gateway_url (fst (MoltbotConnector_init env args)) = ''http://127.0.0.1:18789''
      \<and> ''MOLTBOT_GATEWAY_URL'' \<notin> set (snd (MoltbotConnector_init env args)))
   \<and> (model_arg args = None \<longrightarrow>
      model (fst (MoltbotConnector_init env args)) = ''default''
      \<and> ''MOLTBOT_MODEL'' \<notin> set (snd (MoltbotConnector_init env args)))
   \<and> (gateway_token_arg args = None \<longrightarrow>
      gateway_token (fst (MoltbotConnector_init env args)) = []
      \<and> ''MOLTBOT_GATEWAY_TOKEN'' \<notin> set (snd (MoltbotConnector_init env args)))
   \<and> MoltbotConnector_from_env env =
       (\<lparr>dingtalk_client_id = [], dingtalk_client_secret = [],
         gateway_url = ''http://127.0.0.1:18789'', model = ''default'', system_prompt = [],
         enable_media_upload = True, timeout = 120, gateway_token = []\<rparr>, [])
   \<and> (dingtalk_client_id_arg args = None \<or> dingtalk_client_secret_arg args = None \<longrightarrow>
      (\<exists>e. validate (fst (MoltbotConnector_init env args)) = Inl e)
      \<and> (\<exists>e. start (fst (MoltbotConnector_init env args)) = Inl e))"
proof -
  let ?c = "fst (MoltbotConnector_init env args)"
  let ?l = "snd (MoltbotConnector_init env args)"
  have id: "dingtalk_client_id_arg args = None \<Longrightarrow> dingtalk_client_id ?c = []"
    using MoltbotConnector_init_getattr [of env args A_dingtalk_client_id]
    by (simp add: ENV_DEFAULTS_def param_def UNSET_def)
  have secret: "dingtalk_client_secret_arg args = None \<Longrightarrow> dingtalk_client_secret ?c = []"
    using MoltbotConnector_init_getattr [of env args A_dingtalk_client_secret]
    by (simp add: ENV_DEFAULTS_def param_def UNSET_def)
  have url: "gateway_url_arg args = None \<Longrightarrow> gateway_url ?c = ''http://127.0.0.1:18789''"
    using MoltbotConnector_init_getattr [of env args A_gateway_url]
    by (simp add: ENV_DEFAULTS_def param_def UNSET_def)
  have model: "model_arg args = None \<Longrightarrow> model ?c = ''default''"
    using MoltbotConnector_init_getattr [of env args A_model]
    by (simp add: ENV_DEFAULTS_def param_def UNSET_def)
  have token: "gateway_token_arg args = None \<Longrightarrow> gateway_token ?c = []"
    using MoltbotConnector_init_getattr [of env args A_gateway_token]
    by (simp add: ENV_DEFAULTS_def param_def UNSET_def)
  have log: "?l = map (fst \<circ> snd)
      (filter (\<lambda>e. param (ctor_arg args (fst e)) (snd (snd e)) = UNSET) ENV_DEFAULTS)"
    by (rule MoltbotConnector_init_consulted)
  have k1: "dingtalk_client_id_arg args = None \<Longrightarrow> ''DINGTALK_CLIENT_ID'' \<notin> set ?l"
    unfolding log by (simp add: ENV_DEFAULTS_def param_def UNSET_def)
  have k2: "dingtalk_client_secret_arg args = None \<Longrightarrow> ''DINGTALK_CLIENT_SECRET'' \<notin> set ?l"
    unfolding log by (simp add: ENV_DEFAULTS_def param_def UNSET_def)
  have k3: "gateway_url_arg args = None \<Longrightarrow> ''MOLTBOT_GATEWAY_URL'' \<notin> set ?l"
    unfolding log by (simp add: ENV_DEFAULTS_def param_def UNSET_def)
  have k4: "model_arg args = None \<Longrightarrow> ''MOLTBOT_MODEL'' \<notin> set ?l"
    unfolding log by (simp add: ENV_DEFAULTS_def param_def UNSET_def)
  have k5: "gateway_token_arg args = None \<Longrightarrow> ''MOLTBOT_GATEWAY_TOKEN'' \<notin> set ?l"
    unfolding log by (simp add: ENV_DEFAULTS_def param_def UNSET_def)
  have from_env: "MoltbotConnector_from_env env =
       (\<lparr>dingtalk_client_id = [], dingtalk_client_secret = [],
         gateway_url = ''http://127.0.0.1:18789'', model = ''default'', system_prompt = [],
         enable_media_upload = True, timeout = 120, gateway_token = []\<rparr>, [])"
    by (simp add: MoltbotConnector_from_env_def MoltbotConnector_init_def
        ConnectorConfig_init_def post_init_def ENV_DEFAULTS_def no_args_def param_def UNSET_def)
  have raises: "(\<exists>e. validate ?c = Inl e) \<and> (\<exists>e. start ?c = Inl e)"
    if "dingtalk_client_id_arg args = None \<or> dingtalk_client_secret_arg args = None"
    using that id secret by (auto simp: validate_def start_def)
  from id secret url model token k1 k2 k3 k4 k5 from_env raises show ?thesis
    by blast
qed

theorem connector_defaults_bypass_environment_witness:
  "dingtalk_client_id_arg empty_token_args = None
   \<and> sample_env ''DINGTALK_CLIENT_ID'' = Some ''dingenv''
   \<and> dingtalk_client_id (fst (MoltbotConnector_init sample_env empty_token_args)) = []
   \<and> ''DINGTALK_CLIENT_ID'' \<notin> set (snd (MoltbotConnector_init sample_env empty_token_args))
   \<and> (\<exists>e. start (fst (MoltbotConnector_init sample_env empty_token_args)) = Inl e)"
  using connector_defaults_bypass_environment [of empty_token_args sample_env]
  by (simp add: empty_token_args_def no_args_def sample_env_def)

section \<open>Properties of the token cache\<close>

lemma token_try_body_log:
  "net_log (snd (token_try_body cid sec io st)) = net_log st @ [GetToken cid sec]"
  by (simp add: token_try_body_def Let_def split: sum.split)

lemma token_try_body_success:
  assumes "gettoken_reply io = Inr (JObj kvs)"
    and "eq_zero (dict_get kvs ''errcode'' JNull)"
    and "float_operand (binary64 io) (dict_get kvs ''expires_in'' (JInt 7200)) = Inr seconds"
  shows "token_try_body cid sec io st =
     (Inr (Some (dict_get kvs ''access_token'' (JStr ''''))),
      st\<lparr>net_log := net_log st @ [GetToken cid sec],
         token_cache := (token_cache st)
           (cid \<mapsto> (dict_get kvs ''access_token'' (JStr ''''),
                    float_sub (binary64 io)
                      (float_add (binary64 io) (Finite (clock_store io)) seconds)
                      (Finite 300)))\<rparr>)"
  using assms by (simp add: token_try_body_def Let_def)

lemma token_try_body_failure:
  assumes "(\<exists>e. gettoken_reply io = Inl e)
      \<or> (\<exists>kvs. gettoken_reply io = Inr (JObj kvs) \<and> \<not> eq_zero (dict_get kvs ''errcode'' JNull))
      \<or> (\<exists>data. gettoken_reply io = Inr data \<and> (\<forall>kvs. data \<noteq> JObj kvs))"
  shows "(fst (token_try_body cid sec io st) = Inr None
          \<or> (\<exists>e. fst (token_try_body cid sec io st) = Inl e))
       \<and> token_cache (snd (token_try_body cid sec io st)) = token_cache st"
  using assms
proof (elim disjE exE conjE)
  fix e assume "gettoken_reply io = Inl e"
  then show ?thesis by (simp add: token_try_body_def Let_def)
next
  fix kvs assume "gettoken_reply io = Inr (JObj kvs)" "\<not> eq_zero (dict_get kvs ''errcode'' JNull)"
  then show ?thesis by (simp add: token_try_body_def Let_def)
next
  fix data assume "gettoken_reply io = Inr data" "\<forall>kvs. data \<noteq> JObj kvs"
  then show ?thesis by (cases data) (simp_all add: token_try_body_def Let_def)
qed

lemma get_token_hit:
  "token_cache st cid = Some (tok, expires_at) \<Longrightarrow>
   float_less (Finite (clock_check io)) expires_at \<Longrightarrow>
   get_dingtalk_access_token cid sec io st = (Inr (Some tok), st)"
  by (simp add: get_dingtalk_access_token_def)

lemma get_token_fetch:
  assumes "token_cache st cid = None
      \<or> (\<exists>tok expires_at. token_cache st cid = Some (tok, expires_at)
            \<and> \<not> float_less (Finite (clock_check io)) expires_at)"
  shows "get_dingtalk_access_token cid sec io st =
     (case token_try_body cid sec io st of
        (Inl e, st') \<Rightarrow> (Inr None, st')
      | (Inr r, st') \<Rightarrow> (Inr r, st'))"
  using assms by (auto simp: get_dingtalk_access_token_def)

lemma get_token_fetch_log:
  assumes "token_cache st cid = None
      \<or> (\<exists>tok expires_at. token_cache st cid = Some (tok, expires_at)
            \<and> \<not> float_less (Finite (clock_check io)) expires_at)"
  shows "net_log (snd (get_dingtalk_access_token cid sec io st)) = net_log st @ [GetToken cid sec]"
proof -
  have "snd (get_dingtalk_access_token cid sec io st) = snd (token_try_body cid sec io st)"
    unfolding get_token_fetch [OF assms] by (simp split: prod.split sum.split)
  then show ?thesis by (simp add: token_try_body_log)
qed

subsection \<open>C4\<close>

lemma token_try_body_no_number:
  assumes "gettoken_reply io = Inr (JObj kvs)"
    and "eq_zero (dict_get kvs ''errcode'' JNull)"
    and "float_operand (binary64 io) (dict_get kvs ''expires_in'' (JInt 7200)) = Inl e"
  shows "token_try_body cid sec io st =
     (Inl e, st\<lparr>net_log := net_log st @ [GetToken cid sec]\<rparr>)"
  using assms by (simp add: token_try_body_def Let_def)

text \<open>
  C4, as amended. Start where the cache has no entry for the client id, or one that the
  clock of the call is not before, and let the token endpoint answer with errcode 0. The
  call makes one request. When \<^verbatim>\<open>expires_in\<close> is no number that a float can be added to, the
  call returns \<^verbatim>\<open>None\<close> and stores nothing. Otherwise it returns the issued token and stores
  it with the expiry that Python computes for \<^verbatim>\<open>time.time() + expires_in - 300\<close>: the float
  sum of the time of storing and the validity, less 300, each operation rounded to
  binary64. A second call whose clock is before that expiry returns the same token and
  leaves the state as it is, network log included, so the two calls made one request; a
  second call whose clock is not before the expiry (which is every call when the expiry is
  a NaN) makes a second request. Where neither operation rounds, the expiry is the exact
  number "time of storing + validity - 300".
\<close>

theorem token_cache_validity_window:
  assumes "token_cache st cid = None
      \<or> (\<exists>tok expires_at. token_cache st cid = Some (tok, expires_at)
            \<and> \<not> float_less (Finite (clock_check io1)) expires_at)"
    and "gettoken_reply io1 = Inr (JObj kvs)"
    and "eq_zero (dict_get kvs ''errcode'' JNull)"
  shows "net_log (snd (get_dingtalk_access_token cid sec io1 st)) = net_log st @ [GetToken cid sec]
       \<and> (\<forall>e. float_operand (binary64 io1) (dict_get kvs ''expires_in'' (JInt 7200)) = Inl e \<longrightarrow>
             fst (get_dingtalk_access_token cid sec io1 st) = Inr None
             \<and> token_cache (snd (get_dingtalk_access_token cid sec io1 st)) = token_cache st)
       \<and> (\<forall>seconds.
             float_operand (binary64 io1) (dict_get kvs ''expires_in'' (JInt 7200)) = Inr seconds \<longrightarrow>
             fst (get_dingtalk_access_token cid sec io1 st)
               = Inr (Some (dict_get kvs ''access_token'' (JStr '''')))
             \<and> token_cache (snd (get_dingtalk_access_token cid sec io1 st)) cid
                 = Some (dict_get kvs ''access_token'' (JStr ''''),
                         float_sub (binary64 io1)
                           (float_add (binary64 io1) (Finite (clock_store io1)) seconds)
                           (Finite 300))
             \<and> (float_less (Finite (clock_check io2))
                   (float_sub (binary64 io1)
                      (float_add (binary64 io1) (Finite (clock_store io1)) seconds)
                      (Finite 300)) \<longrightarrow>
                  get_dingtalk_access_token cid sec2 io2
                    (snd (get_dingtalk_access_token cid sec io1 st))
                    = (Inr (Some (dict_get kvs ''access_token'' (JStr ''''))),
                       snd (get_dingtalk_access_token cid sec io1 st)))
             \<and> (\<not> float_less (Finite (clock_check io2))
                     (float_sub (binary64 io1)
                        (float_add (binary64 io1) (Finite (clock_store io1)) seconds)
                        (Finite 300)) \<longrightarrow>
                  net_log (snd (get_dingtalk_access_token cid sec2 io2
                                  (snd (get_dingtalk_access_token cid sec io1 st))))
                    = net_log st @ [GetToken cid sec, GetToken cid sec2])
             \<and> (\<forall>s. seconds = Finite s
                     \<and> binary64 io1 (clock_store io1 + s) = Finite (clock_store io1 + s)
                     \<and> binary64 io1 (clock_store io1 + s - 300)
                         = Finite (clock_store io1 + s - 300) \<longrightarrow>
                  float_sub (binary64 io1)
                    (float_add (binary64 io1) (Finite (clock_store io1)) seconds) (Finite 300)
                    = Finite (clock_store io1 + s - 300)))"
proof (intro conjI allI impI)
  show "net_log (snd (get_dingtalk_access_token cid sec io1 st)) = net_log st @ [GetToken cid sec]"
    by (rule get_token_fetch_log [OF assms(1)])
next
  fix e
  assume no_number:
    "float_operand (binary64 io1) (dict_get kvs ''expires_in'' (JInt 7200)) = Inl e"
  have "get_dingtalk_access_token cid sec io1 st =
      (Inr None, st\<lparr>net_log := net_log st @ [GetToken cid sec]\<rparr>)"
    unfolding get_token_fetch [OF assms(1)] token_try_body_no_number [OF assms(2,3) no_number]
    by simp
  then show "fst (get_dingtalk_access_token cid sec io1 st) = Inr None"
    and "token_cache (snd (get_dingtalk_access_token cid sec io1 st)) = token_cache st"
    by simp_all
next
  fix seconds
  assume number:
    "float_operand (binary64 io1) (dict_get kvs ''expires_in'' (JInt 7200)) = Inr seconds"
  let ?tok = "dict_get kvs ''access_token'' (JStr '''')"
  let ?exp = "float_sub (binary64 io1)
     (float_add (binary64 io1) (Finite (clock_store io1)) seconds) (Finite 300)"
  let ?st1 = "snd (get_dingtalk_access_token cid sec io1 st)"
  have first: "get_dingtalk_access_token cid sec io1 st =
      (Inr (Some ?tok),
       st\<lparr>net_log := net_log st @ [GetToken cid sec],
          token_cache := (token_cache st)(cid \<mapsto> (?tok, ?exp))\<rparr>)"
    unfolding get_token_fetch [OF assms(1)] token_try_body_success [OF assms(2,3) number]
    by simp
  have entry: "token_cache ?st1 cid = Some (?tok, ?exp)"
    and log: "net_log ?st1 = net_log st @ [GetToken cid sec]"
    by (simp_all add: first)
  show "fst (get_dingtalk_access_token cid sec io1 st) = Inr (Some ?tok)"
    by (simp add: first)
  show "token_cache ?st1 cid = Some (?tok, ?exp)"
    by (rule entry)
  show "get_dingtalk_access_token cid sec2 io2 ?st1 = (Inr (Some ?tok), ?st1)"
    if "float_less (Finite (clock_check io2)) ?exp"
    using entry that by (rule get_token_hit)
  show "net_log (snd (get_dingtalk_access_token cid sec2 io2 ?st1))
      = net_log st @ [GetToken cid sec, GetToken cid sec2]"
    if "\<not> float_less (Finite (clock_check io2)) ?exp"
  proof -
    from entry that have "token_cache ?st1 cid = None
      \<or> (\<exists>tok expires_at. token_cache ?st1 cid = Some (tok, expires_at)
            \<and> \<not> float_less (Finite (clock_check io2)) expires_at)"
      by simp
    from get_token_fetch_log [OF this] show ?thesis
      by (simp add: log)
  qed
  show "?exp = Finite (clock_store io1 + s - 300)"
    if "seconds = Finite s
        \<and> binary64 io1 (clock_store io1 + s) = Finite (clock_store io1 + s)
        \<and> binary64 io1 (clock_store io1 + s - 300) = Finite (clock_store io1 + s - 300)" for s
    using that by (simp add: float_sub_def)
qed

theorem token_cache_validity_window_witness:
  "token_cache fresh_state ''ding1'' = None
   \<and> fst (get_dingtalk_access_token ''ding1'' ''s3cret'' io_first fresh_state)
       = Inr (Some (JStr ''tok123''))
   \<and> token_cache (snd (get_dingtalk_access_token ''ding1'' ''s3cret'' io_first fresh_state)) ''ding1''
       = Some (JStr ''tok123'', Finite 7901)
   \<and> fst (get_dingtalk_access_token ''ding1'' ''s3cret'' io_within
        (snd (get_dingtalk_access_token ''ding1'' ''s3cret'' io_first fresh_state)))
       = Inr (Some (JStr ''tok123''))
   \<and> net_log (snd (get_dingtalk_access_token ''ding1'' ''s3cret'' io_within
        (snd (get_dingtalk_access_token ''ding1'' ''s3cret'' io_first fresh_state))))
       = [GetToken ''ding1'' ''s3cret'']
   \<and> net_log (snd (get_dingtalk_access_token ''ding1'' ''s3cret'' io_after
        (snd (get_dingtalk_access_token ''ding1'' ''s3cret'' io_first fresh_state))))
       = [GetToken ''ding1'' ''s3cret'', GetToken ''ding1'' ''s3cret'']
   \<and> fst (get_dingtalk_access_token ''ding1'' ''s3cret'' io_no_number fresh_state) = Inr None
   \<and> token_cache (snd (get_dingtalk_access_token ''ding1'' ''s3cret'' io_no_number fresh_state))
       = token_cache fresh_state"
proof -
  have a: "token_cache fresh_state ''ding1'' = None
      \<or> (\<exists>tok expires_at. token_cache fresh_state ''ding1'' = Some (tok, expires_at)
            \<and> \<not> float_less (Finite (clock_check io_first)) expires_at)"
    "token_cache fresh_state ''ding1'' = None
      \<or> (\<exists>tok expires_at. token_cache fresh_state ''ding1'' = Some (tok, expires_at)
            \<and> \<not> float_less (Finite (clock_check io_no_number)) expires_at)"
    by (simp_all add: fresh_state_def)
  have b: "gettoken_reply io_first = Inr (JObj token_reply_fields)"
    "gettoken_reply io_no_number = Inr (JObj no_number_fields)"
    by (simp_all add: io_first_def io_no_number_def)
  have c: "eq_zero (dict_get token_reply_fields ''errcode'' JNull)"
    "eq_zero (dict_get no_number_fields ''errcode'' JNull)"
    by (simp_all add: token_reply_fields_def no_number_fields_def dict_get_def)
  have d: "float_operand (binary64 io_first)
      (dict_get token_reply_fields ''expires_in'' (JInt 7200)) = Inr (Finite 7200)"
    by (simp add: token_reply_fields_def dict_get_def float_int_limit_def io_first_def
        unrounded_def)
  have d': "float_operand (binary64 io_no_number)
      (dict_get no_number_fields ''expires_in'' (JInt 7200))
      = Inl (Exc TypeError (''unsupported operand type(s) for +: '' @ quoted ''float''
               @ '' and '' @ quoted ''str''))"
    by (simp add: no_number_fields_def dict_get_def)
  have tok: "dict_get token_reply_fields ''access_token'' (JStr '''') = JStr ''tok123''"
    by (simp add: token_reply_fields_def dict_get_def)
  note within = token_cache_validity_window
    [OF a(1) b(1) c(1), of "''s3cret''" io_within "''s3cret''", THEN conjunct2, THEN conjunct2,
     rule_format, OF d]
  note after = token_cache_validity_window
    [OF a(1) b(1) c(1), of "''s3cret''" io_after "''s3cret''", THEN conjunct2, THEN conjunct2,
     rule_format, OF d]
  note no_number = token_cache_validity_window
    [OF a(2) b(2) c(2), of "''s3cret''" io_first "''s3cret''", THEN conjunct2, THEN conjunct1,
     rule_format, OF d']
  note one_request = token_cache_validity_window
    [OF a(1) b(1) c(1), of "''s3cret''" io_within "''s3cret''", THEN conjunct1]
  from one_request within after no_number show ?thesis
    by (simp add: tok fresh_state_def io_first_def io_within_def io_after_def
        float_sub_def unrounded_def)
qed

text \<open>
  C4 as stated fails where the float sum rounds. At the clock \<open>2^53\<close> a validity of 301
  seconds gives the sum \<open>2^53 + 301\<close>, which binary64 rounds to \<open>2^53 + 300\<close>, so the
  expiry stored is \<open>2^53\<close> and not "time of storing + validity - 300", which is
  \<open>2^53 + 1\<close>; and a second call at the same clock, which is before \<open>2^53 + 1\<close>, makes a
  second request.
\<close>

theorem stored_expiry_rounded_and_token_fetched_again:
  "clock_store io_at_2_53 = 2 ^ 53 \<and> clock_check io_at_2_53 = 2 ^ 53
   \<and> gettoken_reply io_at_2_53
       = Inr (JObj [(''errcode'', JInt 0), (''access_token'', JStr ''tok456''),
                    (''expires_in'', JInt 301)])
   \<and> fst (get_dingtalk_access_token ''ding1'' ''s3cret'' io_at_2_53 fresh_state)
       = Inr (Some (JStr ''tok456''))
   \<and> token_cache (snd (get_dingtalk_access_token ''ding1'' ''s3cret'' io_at_2_53 fresh_state))
        ''ding1''
       = Some (JStr ''tok456'', Finite (2 ^ 53))
   \<and> clock_store io_at_2_53 + 301 - 300 = 2 ^ 53 + 1
   \<and> clock_check io_at_2_53 < clock_store io_at_2_53 + 301 - 300
   \<and> net_log (snd (get_dingtalk_access_token ''ding1'' ''s3cret'' io_at_2_53
        (snd (get_dingtalk_access_token ''ding1'' ''s3cret'' io_at_2_53 fresh_state))))
       = [GetToken ''ding1'' ''s3cret'', GetToken ''ding1'' ''s3cret'']"
proof -
  have first: "get_dingtalk_access_token ''ding1'' ''s3cret'' io_at_2_53 fresh_state =
      (Inr (Some (JStr ''tok456'')),
       \<lparr>token_cache = [''ding1'' \<mapsto> (JStr ''tok456'', Finite (2 ^ 53))],
        net_log = [GetToken ''ding1'' ''s3cret'']\<rparr>)"
    by (simp add: get_dingtalk_access_token_def token_try_body_def Let_def fresh_state_def
        io_at_2_53_def short_lived_fields_def dict_get_def float_int_limit_def float_sub_def
        rounded_above_2_53_def)
  have second: "net_log (snd (get_dingtalk_access_token ''ding1'' ''s3cret'' io_at_2_53
        \<lparr>token_cache = [''ding1'' \<mapsto> (JStr ''tok456'', Finite (2 ^ 53))],
         net_log = [GetToken ''ding1'' ''s3cret'']\<rparr>))
       = [GetToken ''ding1'' ''s3cret'', GetToken ''ding1'' ''s3cret'']"
    by (simp add: get_dingtalk_access_token_def token_try_body_def Let_def
        io_at_2_53_def short_lived_fields_def dict_get_def float_int_limit_def float_sub_def
        rounded_above_2_53_def)
  show ?thesis
    unfolding first using second
    by (simp add: io_at_2_53_def short_lived_fields_def)
qed

subsection \<open>C7\<close>

text \<open>
  C7. \<^verbatim>\<open>get_dingtalk_access_token\<close> returns in every case: no exception reaches its caller.
  When a fetch is made (nothing cached for the client id, or the entry has expired) and it
  fails, because the request or the decoding of the reply raises, or the reply carries an
  errcode that is not zero (or none at all), or the reply is not a JSON object, the value
  returned is \<^verbatim>\<open>None\<close> and the cache is left as it was.
\<close>

theorem token_fetch_failure_returns_none:
  "(\<exists>r. fst (get_dingtalk_access_token cid sec io st) = Inr r)
   \<and> ((token_cache st cid = None
        \<or> (\<exists>tok expires_at. token_cache st cid = Some (tok, expires_at)
              \<and> \<not> float_less (Finite (clock_check io)) expires_at))
       \<and> ((\<exists>e. gettoken_reply io = Inl e)
          \<or> (\<exists>kvs. gettoken_reply io = Inr (JObj kvs)
                \<and> \<not> eq_zero (dict_get kvs ''errcode'' JNull))
          \<or> (\<exists>data. gettoken_reply io = Inr data \<and> (\<forall>kvs. data \<noteq> JObj kvs)))
       \<longrightarrow> fst (get_dingtalk_access_token cid sec io st) = Inr None
           \<and> token_cache (snd (get_dingtalk_access_token cid sec io st)) = token_cache st)"
proof (intro conjI impI)
  show "\<exists>r. fst (get_dingtalk_access_token cid sec io st) = Inr r"
    by (simp add: get_dingtalk_access_token_def Let_def split: option.split prod.split sum.split)
next
  assume h: "(token_cache st cid = None
        \<or> (\<exists>tok expires_at. token_cache st cid = Some (tok, expires_at)
              \<and> \<not> float_less (Finite (clock_check io)) expires_at))
       \<and> ((\<exists>e. gettoken_reply io = Inl e)
          \<or> (\<exists>kvs. gettoken_reply io = Inr (JObj kvs)
                \<and> \<not> eq_zero (dict_get kvs ''errcode'' JNull))
          \<or> (\<exists>data. gettoken_reply io = Inr data \<and> (\<forall>kvs. data \<noteq> JObj kvs)))"
  then have stale: "token_cache st cid = None
        \<or> (\<exists>tok expires_at. token_cache st cid = Some (tok, expires_at)
              \<and> \<not> float_less (Finite (clock_check io)) expires_at)"
    and bad: "(\<exists>e. gettoken_reply io = Inl e)
          \<or> (\<exists>kvs. gettoken_reply io = Inr (JObj kvs)
                \<and> \<not> eq_zero (dict_get kvs ''errcode'' JNull))
          \<or> (\<exists>data. gettoken_reply io = Inr data \<and> (\<forall>kvs. data \<noteq> JObj kvs))"
    by blast+
  obtain r st' where body: "token_try_body cid sec io st = (r, st')"
    by (cases "token_try_body cid sec io st")
  from token_try_body_failure [OF bad, of cid sec st] body
  have r: "r = Inr None \<or> (\<exists>e. r = Inl e)" and c: "token_cache st' = token_cache st"
    by simp_all
  from r c show "fst (get_dingtalk_access_token cid sec io st) = Inr None"
    unfolding get_token_fetch [OF stale] body by auto
  from r c show "token_cache (snd (get_dingtalk_access_token cid sec io st)) = token_cache st"
    unfolding get_token_fetch [OF stale] body by auto
qed

theorem token_fetch_failure_returns_none_witness:
  "token_cache fresh_state ''ding1'' = None
   \<and> gettoken_reply io_network_down = Inl (Exc LibraryError ''connection refused'')
   \<and> fst (get_dingtalk_access_token ''ding1'' ''s3cret'' io_network_down fresh_state) = Inr None
   \<and> gettoken_reply io_bad_errcode
       = Inr (JObj [(''errcode'', JInt 40089), (''errmsg'', JStr ''bad secret'')])
   \<and> fst (get_dingtalk_access_token ''ding1'' ''s3cret'' io_bad_errcode fresh_state) = Inr None
   \<and> token_cache (snd (get_dingtalk_access_token ''ding1'' ''s3cret'' io_bad_errcode fresh_state))
       = token_cache fresh_state"
  using token_fetch_failure_returns_none [of "''ding1''" "''s3cret''" io_network_down fresh_state]
    token_fetch_failure_returns_none [of "''ding1''" "''s3cret''" io_bad_errcode fresh_state]
  by (simp add: fresh_state_def io_network_down_def io_bad_errcode_def dict_get_def)


section \<open>Properties of the stream from the gateway\<close>

lemma get_token_never_raises: "\<exists>r. fst (get_dingtalk_access_token cid sec io st) = Inr r"
  by (simp add: get_dingtalk_access_token_def Let_def split: option.split prod.split sum.split)

lemma media_prompt_text_nonempty: "media_prompt_text fmt t \<noteq> []"
  by (simp add: media_prompt_text_def media_prompt_head_def)

lemma build_media_system_prompt_eq:
  "build_media_system_prompt fmt cid sec io st =
     (Inr (case fst (get_dingtalk_access_token cid sec io st) of
             Inr (Some t) \<Rightarrow> if truthy t then media_prompt_text fmt t else []
           | _ \<Rightarrow> []),
      snd (get_dingtalk_access_token cid sec io st))"
proof -
  obtain r st' where got: "get_dingtalk_access_token cid sec io st = (Inr r, st')"
    using get_token_never_raises [of cid sec io st]
    by (cases "get_dingtalk_access_token cid sec io st") auto
  show ?thesis
    by (cases r) (simp_all add: build_media_system_prompt_def got)
qed

lemma build_messages_eq:
  "build_messages config uc io st =
     (Inr ((case fst (get_dingtalk_access_token (dingtalk_client_id config)
                        (dingtalk_client_secret config) (token_fetch io) st) of
              Inr (Some t) \<Rightarrow>
                if enable_media_upload config \<and> truthy t then
                  [\<lparr>role = ''system'', content = media_prompt_text (format_other io) t\<rparr>]
                else []
            | _ \<Rightarrow> [])
           @ (if system_prompt config \<noteq> [] then
                [\<lparr>role = ''system'', content = system_prompt config\<rparr>]
              else [])
           @ [\<lparr>role = ''user'', content = uc\<rparr>]),
      if enable_media_upload config then
        snd (get_dingtalk_access_token (dingtalk_client_id config)
               (dingtalk_client_secret config) (token_fetch io) st)
      else st)"
  by (simp add: build_messages_def build_media_system_prompt_eq media_prompt_text_nonempty
      split: sum.split option.split)

lemma build_messages_last:
  "fst (build_messages config uc io st) = Inr messages \<Longrightarrow>
   last messages = \<lparr>role = ''user'', content = uc\<rparr>"
  by (auto simp: build_messages_eq)

lemma stream_from_gateway_posts:
  "\<exists>request.
     fst (build_messages config uc io st) = Inr (payload_messages request)
     \<and> net_log (snd (stream_from_gateway config uc io st))
         = net_log (snd (build_messages config uc io st)) @ [PostChat request]"
proof -
  obtain messages st1 where m: "build_messages config uc io st = (Inr messages, st1)"
    by (simp add: build_messages_eq)
  let ?request = "\<lparr>url = api_url config, headers = build_headers config,
                   request_timeout = timeout config, payload_model = model config,
                   payload_messages = messages, payload_stream = True\<rparr>"
  have "net_log (snd (stream_from_gateway config uc io st)) = net_log st1 @ [PostChat ?request]"
    by (simp add: stream_from_gateway_def m Let_def split: sum.split)
  then have "fst (build_messages config uc io st) = Inr (payload_messages ?request)
     \<and> net_log (snd (stream_from_gateway config uc io st))
         = net_log (snd (build_messages config uc io st)) @ [PostChat ?request]"
    by (simp add: m)
  then show ?thesis ..
qed



subsection \<open>C5\<close>






subsection \<open>C8\<close>

text \<open>
  C8. The list of messages is, in this order: the system message with the media guidance,
  present only when \<^verbatim>\<open>enable_media_upload\<close> is true and \<^verbatim>\<open>get_dingtalk_access_token\<close> has
  returned a token (one that is not empty); the system message with the caller's prompt,
  present only when that prompt is not empty; the user message, always and last. The POST
  carries exactly this list. With \<^verbatim>\<open>enable_media_upload\<close> true and no token (the fetch
  failed), the list is the caller's prompt, if any, and the user message, and it is still
  posted.
\<close>

theorem chat_messages_order:
  "fst (build_messages config uc io st) =
     Inr ((case fst (get_dingtalk_access_token (dingtalk_client_id config)
                       (dingtalk_client_secret config) (token_fetch io) st) of
             Inr (Some t) \<Rightarrow>
               if enable_media_upload config \<and> truthy t then
                 [\<lparr>role = ''system'', content = media_prompt_text (format_other io) t\<rparr>]
               else []
           | _ \<Rightarrow> [])
          @ (if system_prompt config \<noteq> [] then
               [\<lparr>role = ''system'', content = system_prompt config\<rparr>]
             else [])
          @ [\<lparr>role = ''user'', content = uc\<rparr>])
   \<and> (\<exists>request.
         net_log (snd (stream_from_gateway config uc io st))
           = net_log (snd (build_messages config uc io st)) @ [PostChat request]
         \<and> fst (build_messages config uc io st) = Inr (payload_messages request)
         \<and> last (payload_messages request) = \<lparr>role = ''user'', content = uc\<rparr>)
   \<and> (enable_media_upload config
        \<and> fst (get_dingtalk_access_token (dingtalk_client_id config)
                 (dingtalk_client_secret config) (token_fetch io) st) = Inr None
       \<longrightarrow> fst (build_messages config uc io st) =
             Inr ((if system_prompt config \<noteq> [] then
                     [\<lparr>role = ''system'', content = system_prompt config\<rparr>]
                   else [])
                  @ [\<lparr>role = ''user'', content = uc\<rparr>]))"
proof (intro conjI impI)
  show "fst (build_messages config uc io st) =
     Inr ((case fst (get_dingtalk_access_token (dingtalk_client_id config)
                       (dingtalk_client_secret config) (token_fetch io) st) of
             Inr (Some t) \<Rightarrow>
               if enable_media_upload config \<and> truthy t then
                 [\<lparr>role = ''system'', content = media_prompt_text (format_other io) t\<rparr>]
               else []
           | _ \<Rightarrow> [])
          @ (if system_prompt config \<noteq> [] then
               [\<lparr>role = ''system'', content = system_prompt config\<rparr>]
             else [])
          @ [\<lparr>role = ''user'', content = uc\<rparr>])"
    by (simp add: build_messages_eq)
next
  from stream_from_gateway_posts [of config uc io st]
  obtain request where
    m: "fst (build_messages config uc io st) = Inr (payload_messages request)"
    and l: "net_log (snd (stream_from_gateway config uc io st))
         = net_log (snd (build_messages config uc io st)) @ [PostChat request]"
    by auto
  from m have "last (payload_messages request) = \<lparr>role = ''user'', content = uc\<rparr>"
    by (rule build_messages_last)
  with m l show "\<exists>request.
         net_log (snd (stream_from_gateway config uc io st))
           = net_log (snd (build_messages config uc io st)) @ [PostChat request]
         \<and> fst (build_messages config uc io st) = Inr (payload_messages request)
         \<and> last (payload_messages request) = \<lparr>role = ''user'', content = uc\<rparr>"
    by auto
next
  assume "enable_media_upload config
        \<and> fst (get_dingtalk_access_token (dingtalk_client_id config)
                 (dingtalk_client_secret config) (token_fetch io) st) = Inr None"
  then show "fst (build_messages config uc io st) =
             Inr ((if system_prompt config \<noteq> [] then
                     [\<lparr>role = ''system'', content = system_prompt config\<rparr>]
                   else [])
                  @ [\<lparr>role = ''user'', content = uc\<rparr>])"
    by (simp add: build_messages_eq)
qed

theorem chat_messages_order_witness:
  "enable_media_upload sample_config
   \<and> fst (get_dingtalk_access_token ''ding1'' ''s3cret'' io_network_down fresh_state) = Inr None
   \<and> fst (build_messages sample_config ''hello'' gateway_500 fresh_state)
       = Inr [\<lparr>role = ''system'', content = ''Be brief.''\<rparr>, \<lparr>role = ''user'', content = ''hello''\<rparr>]
   \<and> fst (build_messages sample_config ''hello'' gateway_with_token fresh_state)
       = Inr [\<lparr>role = ''system'', content = media_prompt_text (\<lambda>v. []) (JStr ''tok123'')\<rparr>,
              \<lparr>role = ''system'', content = ''Be brief.''\<rparr>, \<lparr>role = ''user'', content = ''hello''\<rparr>]"
proof -
  have down: "fst (get_dingtalk_access_token ''ding1'' ''s3cret'' io_network_down fresh_state)
      = Inr None"
    by (simp add: get_dingtalk_access_token_def token_try_body_def fresh_state_def
        io_network_down_def Let_def)
  have up: "fst (get_dingtalk_access_token ''ding1'' ''s3cret'' io_first fresh_state)
      = Inr (Some (JStr ''tok123''))"
    by (simp add: get_dingtalk_access_token_def token_try_body_def fresh_state_def
        io_first_def token_reply_fields_def dict_get_def float_int_limit_def Let_def)
  show ?thesis
    using chat_messages_order [of sample_config "''hello''" gateway_500 fresh_state]
      chat_messages_order [of sample_config "''hello''" gateway_with_token fresh_state]
    by (simp add: down up sample_config_def gateway_500_def gateway_with_token_def
        gateway_hi_there_def)
qed

subsection \<open>C3\<close>

lemma startswith_data: "startswith line ''data: '' = (take 6 line = ''data: '')"
  by (simp add: startswith_def eval_nat_numeral)

lemma line_is_done:
  "(startswith line ''data: '' \<and> drop 6 line = ''[DONE]'') = (line = ''data: [DONE]'')"
proof
  assume "startswith line ''data: '' \<and> drop 6 line = ''[DONE]''"
  then have "take 6 line @ drop 6 line = ''data: '' @ ''[DONE]''"
    by (simp only: startswith_data)
  then show "line = ''data: [DONE]''"
    by simp
next
  assume "line = ''data: [DONE]''"
  then show "startswith line ''data: '' \<and> drop 6 line = ''[DONE]''"
    by (simp add: startswith_data)
qed

lemma py_get_object: "py_get (JObj kvs) k d = Inr (dict_get kvs k d)"
  by simp

lemma py_get_other: "(\<forall>kvs. v \<noteq> JObj kvs) \<Longrightarrow> \<exists>e. py_get v k d = Inl e"
  by (cases v) simp_all

lemma py_index0_string: "s \<noteq> [] \<Longrightarrow> \<exists>t. py_index0 (JStr s) = Inr (JStr t)"
  by (cases s) simp_all

lemma chunk_content_object:
  "chunk_content (JObj kvs) =
     (if truthy (dict_get kvs ''choices'' (JArr [])) then
        (case py_index0 (dict_get kvs ''choices'' (JArr [])) of
           Inl e \<Rightarrow> Inl e
         | Inr first \<Rightarrow>
             (case py_get first ''delta'' (JObj []) of
                Inl e \<Rightarrow> Inl e
              | Inr delta \<Rightarrow>
                  (case py_get delta ''content'' (JStr '''') of
                     Inl e \<Rightarrow> Inl e
                   | Inr c \<Rightarrow> Inr (if truthy c then Some c else None))))
      else Inr None)"
  by (simp add: chunk_content_def)

lemma chunk_content_cases:
  "(envelope_shaped chunk \<and> chunk_content chunk = Inr (envelope_content chunk))
   \<or> (\<not> envelope_shaped chunk \<and> (\<exists>e. chunk_content chunk = Inl e))"
proof (cases chunk)
  case (JObj kvs)
  let ?ch = "dict_get kvs ''choices'' (JArr [])"
  show ?thesis
  proof (cases "truthy ?ch")
    case False
    then have "envelope_shaped chunk"
      by (auto simp: JObj envelope_shaped_def split: json.splits list.splits)
    moreover from False have "envelope_content chunk = None"
      by (auto simp: JObj envelope_content_def dict_get_def split: json.splits list.splits option.splits)
    ultimately show ?thesis
      using False by (simp add: JObj chunk_content_object)
  next
    case True
    show ?thesis
    proof (cases ?ch)
      case (JArr xs)
      with True obtain x rest where xs: "xs = x # rest" by (cases xs) auto
      show ?thesis
      proof (cases x)
        case first: (JObj first)
        let ?d = "dict_get first ''delta'' (JObj [])"
        show ?thesis
        proof (cases "\<exists>delta. ?d = JObj delta")
          case True
          then obtain delta where d: "?d = JObj delta" ..
          have "envelope_shaped chunk"
            by (simp add: JObj envelope_shaped_def JArr xs first d)
          moreover have "chunk_content chunk = Inr (envelope_content chunk)"
            using JArr d
            by (auto simp: JObj chunk_content_object xs first envelope_content_def dict_get_def
                split: option.splits json.splits list.splits)
          ultimately show ?thesis by simp
        next
          case False
          then have "\<not> envelope_shaped chunk"
            by (auto simp: JObj envelope_shaped_def JArr xs first split: json.splits)
          moreover from False have "\<exists>e. py_get ?d ''content'' (JStr '''') = Inl e"
            by (intro py_get_other) simp
          then obtain e where "py_get ?d ''content'' (JStr '''') = Inl e" ..
          then have "\<exists>e. chunk_content chunk = Inl e"
            by (simp add: JObj chunk_content_object JArr xs first)
          ultimately show ?thesis by simp
        qed
      next
        case JNull
        then show ?thesis by (simp add: JObj chunk_content_object envelope_shaped_def JArr xs)
      next
        case (JBool b)
        then show ?thesis by (simp add: JObj chunk_content_object envelope_shaped_def JArr xs)
      next
        case (JInt i)
        then show ?thesis by (simp add: JObj chunk_content_object envelope_shaped_def JArr xs)
      next
        case (JFloat r)
        then show ?thesis by (simp add: JObj chunk_content_object envelope_shaped_def JArr xs)
      next
        case (JStr s)
        then show ?thesis by (simp add: JObj chunk_content_object envelope_shaped_def JArr xs)
      next
        case inner: (JArr ys)
        then show ?thesis by (simp add: JObj chunk_content_object envelope_shaped_def JArr xs)
      qed
    next
      case JNull
      with True show ?thesis by simp
    next
      case (JBool b)
      with True show ?thesis by (simp add: JObj chunk_content_object envelope_shaped_def)
    next
      case (JInt i)
      with True show ?thesis by (simp add: JObj chunk_content_object envelope_shaped_def)
    next
      case (JFloat r)
      with True show ?thesis by (simp add: JObj chunk_content_object envelope_shaped_def)
    next
      case (JStr s)
      with True obtain t where "py_index0 (JStr s) = Inr (JStr t)"
        using py_index0_string [of s] by auto
      with True JStr show ?thesis by (simp add: JObj chunk_content_object envelope_shaped_def)
    next
      case inner: (JObj ys)
      with True show ?thesis by (simp add: JObj chunk_content_object envelope_shaped_def)
    qed
  qed
qed (simp_all add: chunk_content_def envelope_shaped_def)

lemma chunk_content_shaped:
  "envelope_shaped chunk \<Longrightarrow> chunk_content chunk = Inr (envelope_content chunk)"
  using chunk_content_cases [of chunk] by auto

lemma chunk_content_unshaped:
  "\<not> envelope_shaped chunk \<Longrightarrow> \<exists>e. chunk_content chunk = Inl e"
  using chunk_content_cases [of chunk] by auto

lemma py_get_error_kind: "py_get v k d = Inl e \<Longrightarrow> \<not> is_JSONDecodeError e"
  by (cases v) auto

lemma py_index0_error_kind: "py_index0 v = Inl e \<Longrightarrow> \<not> is_JSONDecodeError e"
  by (cases v rule: py_index0.cases) auto

lemma chunk_content_error_kind: "chunk_content chunk = Inl e \<Longrightarrow> \<not> is_JSONDecodeError e"
  by (auto simp: chunk_content_def split: sum.splits if_splits
      dest: py_get_error_kind py_index0_error_kind)

lemma sse_try_body_passes:
  "payload_passes loads data \<Longrightarrow>
   sse_try_body loads data =
     (case loads data of Inl e \<Rightarrow> Inl e | Inr chunk \<Rightarrow> Inr (envelope_content chunk))
   \<and> (\<forall>e. loads data = Inl e \<longrightarrow> is_JSONDecodeError e)"
  by (auto simp: payload_passes_def sse_try_body_def chunk_content_shaped split: sum.splits)

lemma sse_try_body_stops:
  assumes "\<not> payload_passes loads data"
  shows "\<exists>e. sse_try_body loads data = Inl e \<and> \<not> is_JSONDecodeError e"
proof (cases "loads data")
  case (Inl e)
  with assms show ?thesis
    by (simp add: payload_passes_def sse_try_body_def)
next
  case (Inr chunk)
  with assms have "\<not> envelope_shaped chunk"
    by (simp add: payload_passes_def)
  then obtain e where e: "chunk_content chunk = Inl e"
    using chunk_content_unshaped by blast
  with chunk_content_error_kind [OF e] Inr show ?thesis
    by (simp add: sse_try_body_def)
qed

lemma sse_loop_passes:
  assumes "\<forall>line \<in> set (takeWhile (\<lambda>line. line \<noteq> ''data: [DONE]'') lines).
             startswith line ''data: '' \<longrightarrow> payload_passes loads (drop 6 line)"
  shows "sse_loop loads lines ending =
     (expected_fragments loads lines, if ''data: [DONE]'' \<in> set lines then None else ending)"
  using assms
proof (induction lines)
  case Nil
  then show ?case by (simp add: expected_fragments_def List.map_filter_simps)
next
  case (Cons line rest)
  show ?case
  proof (cases "line = ''data: [DONE]''")
    case True
    then show ?thesis
      by (simp add: expected_fragments_def List.map_filter_simps startswith_data)
  next
    case False
    with Cons.prems have rest: "\<forall>line \<in> set (takeWhile (\<lambda>line. line \<noteq> ''data: [DONE]'') rest).
             startswith line ''data: '' \<longrightarrow> payload_passes loads (drop 6 line)"
      and here: "startswith line ''data: '' \<Longrightarrow> payload_passes loads (drop 6 line)"
      by simp_all
    note IH = Cons.IH [OF rest]
    from False have later: "(''data: [DONE]'' \<in> set (line # rest)) = (''data: [DONE]'' \<in> set rest)"
      by auto
    show ?thesis
    proof (cases "startswith line ''data: ''")
      case no_prefix: False
      with False show ?thesis
        by (simp add: IH later [simplified] expected_fragments_def List.map_filter_simps)
    next
      case prefix: True
      with False have not_done: "drop 6 line \<noteq> ''[DONE]''"
        using line_is_done [of line] by simp
      from prefix have nonempty: "line \<noteq> []"
        by (auto simp: startswith_data)
      note body = sse_try_body_passes [OF here [OF prefix]]
      show ?thesis
      proof (cases "loads (drop 6 line)")
        case (Inl e)
        with body have "sse_try_body loads (drop 6 line) = Inl e" and "is_JSONDecodeError e"
          by simp_all
        with False prefix not_done nonempty Inl show ?thesis
          by (simp add: IH later [simplified] expected_fragments_def List.map_filter_simps)
      next
        case (Inr chunk)
        with body have "sse_try_body loads (drop 6 line) = Inr (envelope_content chunk)"
          by simp
        with False prefix not_done nonempty Inr show ?thesis
          by (cases "envelope_content chunk")
            (simp_all add: IH later [simplified] expected_fragments_def List.map_filter_simps)
      qed
    qed
  qed
qed

lemma sse_loop_append:
  assumes "\<forall>line \<in> set pre. line \<noteq> ''data: [DONE]''
             \<and> (startswith line ''data: '' \<longrightarrow> payload_passes loads (drop 6 line))"
  shows "sse_loop loads (pre @ later) ending =
     (expected_fragments loads pre @ fst (sse_loop loads later ending),
      snd (sse_loop loads later ending))"
  using assms
proof (induction pre)
  case Nil
  then show ?case by (simp add: expected_fragments_def List.map_filter_simps)
next
  case (Cons line rest)
  then have rest: "\<forall>line \<in> set rest. line \<noteq> ''data: [DONE]''
             \<and> (startswith line ''data: '' \<longrightarrow> payload_passes loads (drop 6 line))"
    and not_done_line: "line \<noteq> ''data: [DONE]''"
    and here: "startswith line ''data: '' \<Longrightarrow> payload_passes loads (drop 6 line)"
    by simp_all
  note IH = Cons.IH [OF rest]
  show ?case
  proof (cases "startswith line ''data: ''")
    case no_prefix: False
    with not_done_line show ?thesis
      by (simp add: IH expected_fragments_def List.map_filter_simps)
  next
    case prefix: True
    with not_done_line have not_done: "drop 6 line \<noteq> ''[DONE]''"
      using line_is_done [of line] by simp
    from prefix have nonempty: "line \<noteq> []"
      by (auto simp: startswith_data)
    note body = sse_try_body_passes [OF here [OF prefix]]
    show ?thesis
    proof (cases "loads (drop 6 line)")
      case (Inl e)
      with body have "sse_try_body loads (drop 6 line) = Inl e" and "is_JSONDecodeError e"
        by simp_all
      with not_done_line prefix not_done nonempty Inl show ?thesis
        by (simp add: IH expected_fragments_def List.map_filter_simps)
    next
      case (Inr chunk)
      with body have "sse_try_body loads (drop 6 line) = Inr (envelope_content chunk)"
        by simp
      with not_done_line prefix not_done nonempty Inr show ?thesis
        by (cases "envelope_content chunk")
          (simp_all add: IH expected_fragments_def List.map_filter_simps)
    qed
  qed
qed

lemma sse_loop_stops:
  assumes "\<forall>line \<in> set pre. line \<noteq> ''data: [DONE]''
             \<and> (startswith line ''data: '' \<longrightarrow> payload_passes loads (drop 6 line))"
    and "startswith line ''data: ''" and "line \<noteq> ''data: [DONE]''"
    and "\<not> payload_passes loads (drop 6 line)"
  shows "\<exists>e. sse_try_body loads (drop 6 line) = Inl e \<and> \<not> is_JSONDecodeError e
       \<and> sse_loop loads (pre @ line # rest) ending = (expected_fragments loads pre, Some e)"
proof -
  from assms(2,3) have not_done: "drop 6 line \<noteq> ''[DONE]''"
    using line_is_done [of line] by simp
  from assms(2) have nonempty: "line \<noteq> []"
    by (auto simp: startswith_data)
  from sse_try_body_stops [OF assms(4)] obtain e
    where e: "sse_try_body loads (drop 6 line) = Inl e" "\<not> is_JSONDecodeError e"
    by blast
  with not_done nonempty assms(2) have "sse_loop loads (line # rest) ending = ([], Some e)"
    by simp
  with e show ?thesis
    by (simp add: sse_loop_append [OF assms(1)])
qed

text \<open>The sample streams, run.\<close>

lemma loads_hi: "sample_json_loads (envelope_text ''Hi'') = Inr (envelope ''Hi'')"
  by (simp add: sample_json_loads_def)

lemma loads_there: "sample_json_loads (envelope_text '' there'') = Inr (envelope '' there'')"
  by (simp add: sample_json_loads_def envelope_text_def)


lemma loads_5: "sample_json_loads ''5'' = Inr (JInt 5)"
  by (simp add: sample_json_loads_def envelope_text_def number_envelope_text_def)

lemma loads_not_json:
  "sample_json_loads ''not json''
     = Inl (Exc JSONDecodeError ''Expecting value: line 1 column 1 (char 0)'')"
  by (simp add: sample_json_loads_def envelope_text_def number_envelope_text_def)

lemma envelope_text_not_done: "envelope_text s \<noteq> ''[DONE]''"
  by (simp add: envelope_text_def)


lemma chunk_content_envelope: "s \<noteq> [] \<Longrightarrow> chunk_content (envelope s) = Inr (Some (JStr s))"
  by (simp add: chunk_content_def envelope_def dict_get_def)


lemma sse_hi_there:
  "sse_loop sample_json_loads hi_there_lines None = ([JStr ''Hi'', JStr '' there''], None)"
  by (simp add: hi_there_lines_def startswith_data sse_try_body_def loads_hi loads_there
      loads_not_json envelope_text_not_done chunk_content_envelope)

lemma sse_number:
  "sse_loop sample_json_loads number_then_hi_lines None =
     ([], Some (Exc AttributeError (quoted ''int'' @ '' object has no attribute '' @ quoted ''get'')))"
  by (simp add: number_then_hi_lines_def startswith_data sse_try_body_def loads_5
      chunk_content_def)


lemma expected_number:
  "expected_fragments sample_json_loads number_then_hi_lines = [JStr ''Hi'']"
  by (simp add: expected_fragments_def number_then_hi_lines_def List.map_filter_simps
      startswith_data loads_5 loads_hi envelope_content_def envelope_def envelope_text_not_done)

lemma sse_hi_then_number:
  "sse_loop sample_json_loads hi_then_number_lines None =
     ([JStr ''Hi''],
      Some (Exc AttributeError (quoted ''int'' @ '' object has no attribute '' @ quoted ''get'')))"
proof -
  have "chunk_content (JInt 5) =
      Inl (Exc AttributeError (quoted ''int'' @ '' object has no attribute '' @ quoted ''get''))"
    by (simp add: chunk_content_def)
  then show ?thesis
    by (simp add: hi_then_number_lines_def startswith_data sse_try_body_def loads_hi loads_5
        envelope_text_not_done chunk_content_envelope)
qed

text \<open>
  C3, as amended. A payload passes when \<^verbatim>\<open>json.loads\<close> refuses it with a
  \<^verbatim>\<open>JSONDecodeError\<close> or decodes it to a value with the shape of an envelope. Take the lines
  that come before the first \<^verbatim>\<open>data: [DONE]\<close> and suppose that every payload among them
  passes. Then the generator yields exactly the contents of the envelopes, in the order of
  the lines, and ends plainly at \<^verbatim>\<open>data: [DONE]\<close> (or as the transport ends when that line
  never comes); lines without the prefix \<^verbatim>\<open>data: \<close> and payloads refused with a
  \<^verbatim>\<open>JSONDecodeError\<close> are passed over. The first payload that does not pass, be it one on
  which \<^verbatim>\<open>json.loads\<close> raises another exception or one that is JSON of another shape, ends
  the generator at its line with that exception, after the contents of the lines before
  it: the handler of the loop catches \<^verbatim>\<open>JSONDecodeError\<close> only.
\<close>

theorem sse_yields_envelope_contents:
  "((\<forall>line \<in> set (takeWhile (\<lambda>line. line \<noteq> ''data: [DONE]'') lines).
       startswith line ''data: '' \<longrightarrow> payload_passes loads (drop 6 line))
    \<longrightarrow> sse_loop loads lines ending =
          (expected_fragments loads lines,
           if ''data: [DONE]'' \<in> set lines then None else ending))
   \<and> ((\<forall>line \<in> set pre. line \<noteq> ''data: [DONE]''
          \<and> (startswith line ''data: '' \<longrightarrow> payload_passes loads (drop 6 line)))
       \<and> startswith line ''data: '' \<and> line \<noteq> ''data: [DONE]''
       \<and> \<not> payload_passes loads (drop 6 line)
      \<longrightarrow> (\<exists>e. sse_try_body loads (drop 6 line) = Inl e \<and> \<not> is_JSONDecodeError e
             \<and> sse_loop loads (pre @ line # rest) ending
                 = (expected_fragments loads pre, Some e)))"
  using sse_loop_passes [of lines loads ending] sse_loop_stops [of pre loads line rest ending]
  by blast

theorem sse_yields_envelope_contents_witness:
  "sse_loop sample_json_loads hi_there_lines None
     = (expected_fragments sample_json_loads hi_there_lines, None)
   \<and> sse_loop sample_json_loads hi_there_lines None = ([JStr ''Hi'', JStr '' there''], None)
   \<and> (\<exists>e. sse_loop sample_json_loads hi_then_number_lines None
            = (expected_fragments sample_json_loads [''data: '' @ envelope_text ''Hi''], Some e))
   \<and> sse_loop sample_json_loads hi_then_number_lines None
       = ([JStr ''Hi''],
          Some (Exc AttributeError
            (quoted ''int'' @ '' object has no attribute '' @ quoted ''get'')))"
proof -
  have passes: "\<forall>line \<in> set (takeWhile (\<lambda>line. line \<noteq> ''data: [DONE]'') hi_there_lines).
       startswith line ''data: '' \<longrightarrow> payload_passes sample_json_loads (drop 6 line)"
    by (simp add: hi_there_lines_def startswith_data payload_passes_def loads_hi loads_there
        loads_not_json envelope_text_not_done envelope_shaped_def envelope_def dict_get_def)
  have before: "\<forall>line \<in> set [''data: '' @ envelope_text ''Hi'']. line \<noteq> ''data: [DONE]''
          \<and> (startswith line ''data: ''
               \<longrightarrow> payload_passes sample_json_loads (drop 6 line))"
    by (simp add: startswith_data payload_passes_def loads_hi envelope_text_not_done
        envelope_shaped_def envelope_def dict_get_def)
  have other: "startswith ''data: 5'' ''data: '' \<and> ''data: 5'' \<noteq> ''data: [DONE]''
       \<and> \<not> payload_passes sample_json_loads (drop 6 ''data: 5'')"
    by (simp add: startswith_data payload_passes_def loads_5 envelope_shaped_def)
  have done_line: "''data: [DONE]'' \<in> set hi_there_lines"
    by (simp add: hi_there_lines_def)
  from sse_yields_envelope_contents
    [where lines = hi_there_lines and loads = sample_json_loads and ending = None
       and pre = "[''data: '' @ envelope_text ''Hi'']" and line = "''data: 5''"
       and rest = "[''data: '' @ envelope_text '' there'', ''data: [DONE]'']"]
    passes before other
  have "sse_loop sample_json_loads hi_there_lines None
      = (expected_fragments sample_json_loads hi_there_lines, None)"
    and "\<exists>e. sse_loop sample_json_loads hi_then_number_lines None
            = (expected_fragments sample_json_loads [''data: '' @ envelope_text ''Hi''], Some e)"
    by (auto simp: done_line hi_then_number_lines_def)
  then show ?thesis
    by (simp add: sse_hi_there sse_hi_then_number)
qed

text \<open>
  C3 as stated fails on a payload that is JSON but not an object: \<^verbatim>\<open>data: 5\<close> makes
  \<^verbatim>\<open>chunk.get\<close> raise \<^verbatim>\<open>AttributeError\<close>, which the loop does not catch, so the content of the
  well-formed line that follows is never yielded.
\<close>

theorem payload_of_other_shape_ends_stream:
  "number_then_hi_lines = [''data: 5'', ''data: '' @ envelope_text ''Hi'', ''data: [DONE]'']
   \<and> expected_fragments sample_json_loads number_then_hi_lines = [JStr ''Hi'']
   \<and> sse_loop sample_json_loads number_then_hi_lines None =
       ([], Some (Exc AttributeError
          (quoted ''int'' @ '' object has no attribute '' @ quoted ''get'')))"
  by (simp add: sse_number expected_number) (simp add: number_then_hi_lines_def)


section \<open>Properties of the handler\<close>

























subsection \<open>C2\<close>




subsection \<open>C9\<close>





end
